theory Spec2Isabelle
  imports Complex_Main "HOL-Library.AList"
begin

section \<open>Tensors\<close>

text \<open>
  An entry of a tensor is a number or NaN. Arithmetic on entries is exact on numbers
  and yields NaN as soon as an operand is NaN; the rounding, the overflow and the
  infinities of floating-point numbers are outside this model.
\<close>

datatype scalar = NaN | Num real

instantiation scalar :: "{comm_monoid_add, times}"
begin

definition zero_scalar :: scalar where
  "zero_scalar = Num 0"

fun plus_scalar :: "scalar \<Rightarrow> scalar \<Rightarrow> scalar" where
  "plus_scalar (Num a) (Num b) = Num (a + b)"
| "plus_scalar x y = NaN"

fun times_scalar :: "scalar \<Rightarrow> scalar \<Rightarrow> scalar" where
  "times_scalar (Num a) (Num b) = Num (a * b)"
| "times_scalar x y = NaN"

instance
proof
  fix x y z :: scalar
  show "x + y + z = x + (y + z)"
    by (cases x; cases y; cases z; simp)
next
  fix x y :: scalar
  show "x + y = y + x"
    by (cases x; cases y; simp)
next
  fix x :: scalar
  show "0 + x = x"
    unfolding zero_scalar_def by (cases x; simp)
qed

end

text \<open>A sum divided by a count, and the rectifier: \<open>relu\<close> keeps NaN.\<close>

fun over :: "scalar \<Rightarrow> nat \<Rightarrow> scalar" where
  "over (Num a) n = Num (a / real n)"
| "over NaN n = NaN"

fun relu :: "scalar \<Rightarrow> scalar" where
  "relu (Num a) = Num (max 0 a)"
| "relu NaN = NaN"

fun num :: "scalar \<Rightarrow> real" where
  "num (Num a) = a"
| "num NaN = 0"


text \<open>
  The element types that occur: two floating-point types and the integers. Where two
  types meet, the framework promotes to the wider one.
\<close>

datatype dtype = Float32 | Float64 | Int64

definition floating :: "dtype \<Rightarrow> bool" where
  "floating d = (d \<noteq> Int64)"

definition promote :: "dtype \<Rightarrow> dtype \<Rightarrow> dtype" where
  "promote a b =
     (if a = Float64 \<or> b = Float64 then Float64
      else if a = Float32 \<or> b = Float32 then Float32 else Int64)"

text \<open>
  A tensor has one dimension (\<open>vec\<close>: one entry per node or per edge) or two (one
  row per node or per edge, \<open>ncols\<close> entries in each); tensors of more dimensions are
  outside this model. A one-dimensional tensor is kept as rows of one entry each.
  A tensor carries its column count, so that a tensor with no row still has a shape.
\<close>

datatype tensor = Tensor (dtype: dtype) (vec: bool) (ncols: nat) (rows: "scalar list list")

definition nrows :: "tensor \<Rightarrow> nat" where
  "nrows t = length (rows t)"

definition is_tensor :: "tensor \<Rightarrow> bool" where
  "is_tensor t = (list_all (\<lambda>r. length r = ncols t) (rows t) \<and> (\<not> vec t \<or> ncols t = 1))"

definition has_shape :: "tensor \<Rightarrow> nat \<Rightarrow> nat \<Rightarrow> bool" where
  "has_shape t n d = (nrows t = n \<and> ncols t = d \<and> is_tensor t)"


text \<open>
  Exceptions. \<open>NameError\<close> is Python's own, raised when a name that is bound
  nowhere is read. \<open>LibError\<close> stands for any exception raised inside the external
  libraries (a missing feature name, a malformed tensor shape, a wrong element type).
\<close>

datatype error = NameError string | LibError

definition bindE :: "error + 'a \<Rightarrow> ('a \<Rightarrow> error + 'b) \<Rightarrow> error + 'b" where
  "bindE m f = (case m of Inl e \<Rightarrow> Inl e | Inr v \<Rightarrow> f v)"

subsection \<open>The tensor operations the notebook calls\<close>

text \<open>
  Modelled from the spec: the tensor kernels belong to the external tensor framework
  (\<open>torch\<close>), which the spec leaves out of scope and of which it only says that it
  raises for malformed tensor shapes. The operations below follow the framework's
  documented meaning on tensors of one and two dimensions.
\<close>

text \<open>Broadcasting of two sizes: equal sizes, or one of them 1.\<close>

definition broadcast :: "nat \<Rightarrow> nat \<Rightarrow> nat option" where
  "broadcast a b =
     (if a = b then Some a else if b = 1 then Some a else if a = 1 then Some b else None)"

definition stretch :: "nat \<Rightarrow> 'a list \<Rightarrow> 'a list" where
  "stretch n xs = (if length xs = n then xs else replicate n (hd xs))"

text \<open>
  \<open>x * y\<close>, the framework's elementwise product. The shapes are aligned at their
  last dimension: a one-dimensional tensor of length \<open>k\<close> counts as one row of \<open>k\<close>
  entries. Each dimension is then broadcast, the result has the promoted element
  type, and it is one-dimensional only when both operands are.
\<close>

definition as_matrix :: "tensor \<Rightarrow> scalar list list" where
  "as_matrix t = (if vec t then [map hd (rows t)] else rows t)"

definition view_rows :: "tensor \<Rightarrow> nat" where
  "view_rows t = (if vec t then 1 else nrows t)"

definition view_cols :: "tensor \<Rightarrow> nat" where
  "view_cols t = (if vec t then nrows t else ncols t)"

definition torch_mul :: "tensor \<Rightarrow> tensor \<Rightarrow> error + tensor" where
  "torch_mul x y =
     (case broadcast (view_rows x) (view_rows y) of
        None \<Rightarrow> Inl LibError
      | Some r \<Rightarrow>
          (case broadcast (view_cols x) (view_cols y) of
             None \<Rightarrow> Inl LibError
           | Some c \<Rightarrow>
               (let m = map2 (\<lambda>a b. map2 times (stretch c a) (stretch c b))
                          (stretch r (as_matrix x)) (stretch r (as_matrix y));
                    dt = promote (dtype x) (dtype y)
                in Inr (if vec x \<and> vec y then Tensor dt True 1 (map (\<lambda>v. [v]) (hd m))
                        else Tensor dt False c m))))"

text \<open>\<open>h[:n]\<close>: the first \<open>n\<close> rows; a slice never raises.\<close>

definition slice_to :: "tensor \<Rightarrow> nat \<Rightarrow> tensor" where
  "slice_to h n = Tensor (dtype h) (vec h) (ncols h) (take n (rows h))"

text \<open>
  \<open>torch.cat([a, b], dim=1)\<close>: the rows of \<open>a\<close> extended by the rows of \<open>b\<close>. Both
  must have two dimensions and the same number of rows.
\<close>

definition torch_cat :: "tensor \<Rightarrow> tensor \<Rightarrow> error + tensor" where
  "torch_cat a b =
     (if vec a \<or> vec b then Inl LibError
      else if nrows a \<noteq> nrows b then Inl LibError
      else Inr (Tensor (promote (dtype a) (dtype b)) False (ncols a + ncols b)
                  (map2 (@) (rows a) (rows b))))"

text \<open>\<open>F.relu\<close>: the rectifier of each entry.\<close>

definition F_relu :: "tensor \<Rightarrow> tensor" where
  "F_relu t = Tensor (dtype t) (vec t) (ncols t) (map (map relu) (rows t))"

text \<open>
  \<open>nn.Linear(in_features, out_features)\<close>: a weight matrix with one row per output
  feature and a bias, of the framework's default element type; applied to a tensor
  of that element type it maps each row \<open>r\<close> to \<open>W r + b\<close>.
\<close>

record Linear =
  in_features :: nat
  out_features :: nat
  weight :: "scalar list list"
  bias :: "scalar list"
  param_dtype :: dtype

definition dot :: "scalar list \<Rightarrow> scalar list \<Rightarrow> scalar" where
  "dot a b = sum_list (map2 times a b)"

definition affine :: "Linear \<Rightarrow> scalar list \<Rightarrow> scalar list" where
  "affine l r = map2 (\<lambda>wrow bi. dot wrow r + bi) (weight l) (bias l)"

definition Linear_forward :: "Linear \<Rightarrow> tensor \<Rightarrow> error + tensor" where
  "Linear_forward l x =
     (if dtype x \<noteq> param_dtype l then Inl LibError
      else if vec x then
        (if nrows x \<noteq> in_features l then Inl LibError
         else Inr (Tensor (dtype x) True 1 (map (\<lambda>v. [v]) (affine l (map hd (rows x))))))
      else if ncols x \<noteq> in_features l then Inl LibError
      else Inr (Tensor (dtype x) False (out_features l) (map (affine l) (rows x))))"


section \<open>The graph\<close>

text \<open>
  Modelled from the spec: the graph object belongs to the external graph library
  (\<open>dgl\<close>): "a graph abstraction exposing per-endpoint feature storage, a set of
  built-in message/reduce function constructors, a generic propagate-and-reduce entry
  point, and a mechanism for scoped (non-persistent) mutation of graph-attached data".

  Edges are directed, from a source node to a destination node. A feature frame maps
  feature names to tensors. On a homogeneous graph (the graphs of the notebook) source
  and destination nodes are the same nodes and \<open>srcdata\<close>, \<open>dstdata\<close> are one frame;
  on a block the destination nodes are the first source nodes and have a frame of
  their own.
\<close>

type_synonym frame = "(string \<times> tensor) list"

record graph =
  is_block :: bool
  num_src :: nat
  num_dst :: nat
  edges :: "(nat \<times> nat) list"
  srcframe :: frame
  dstframe :: frame
  edgeframe :: frame

definition field :: "frame \<Rightarrow> string \<Rightarrow> error + tensor" where
  "field fr k = (case map_of fr k of None \<Rightarrow> Inl LibError | Some t \<Rightarrow> Inr t)"

definition dstdata :: "graph \<Rightarrow> frame" where
  "dstdata g = (if is_block g then dstframe g else srcframe g)"

definition put_dstdata :: "string \<Rightarrow> tensor \<Rightarrow> graph \<Rightarrow> graph" where
  "put_dstdata k t g =
     (if is_block g then g\<lparr>dstframe := AList.update k t (dstframe g)\<rparr>
      else g\<lparr>srcframe := AList.update k t (srcframe g)\<rparr>)"

text \<open>
  \<open>g.srcdata[k] = t\<close> and \<open>g.edata[k] = t\<close>: the tensor must have one row per source
  node, or per edge; the library raises otherwise ("whatever the external library
  raises for malformed tensor shapes"). \<open>g.dstdata[k]\<close> raises when the graph has no
  destination feature \<open>k\<close>.
\<close>

definition g_set_srcdata :: "string \<Rightarrow> tensor \<Rightarrow> graph \<Rightarrow> error + unit \<times> graph" where
  "g_set_srcdata k t g =
     (if nrows t = num_src g then Inr ((), g\<lparr>srcframe := AList.update k t (srcframe g)\<rparr>)
      else Inl LibError)"

definition g_set_edata :: "string \<Rightarrow> tensor \<Rightarrow> graph \<Rightarrow> error + unit \<times> graph" where
  "g_set_edata k t g =
     (if nrows t = length (edges g) then Inr ((), g\<lparr>edgeframe := AList.update k t (edgeframe g)\<rparr>)
      else Inl LibError)"

definition g_get_dstdata :: "string \<Rightarrow> graph \<Rightarrow> error + tensor \<times> graph" where
  "g_get_dstdata k g = bindE (field (dstdata g) k) (\<lambda>t. Inr (t, g))"

subsection \<open>Message passing\<close>

text \<open>
  Modelled from the spec: the edge batch that the library hands to a message function
  ("per-edge computation producing a message from source/edge/destination
  attributes"; the notebook: "\<open>edges\<close> has three members, \<open>src\<close>, \<open>data\<close> and \<open>dst\<close>").
  It gives, for the edges of the graph in order, the features of their source nodes
  (\<open>src\<close>), their own features (\<open>data\<close>) and the features of their destination nodes
  (\<open>dst\<close>): each a tensor with one row per edge.
\<close>

record edge_batch =
  src :: "string \<Rightarrow> error + tensor"
  data :: "string \<Rightarrow> error + tensor"
  dst :: "string \<Rightarrow> error + tensor"

definition gather :: "tensor \<Rightarrow> nat list \<Rightarrow> error + tensor" where
  "gather t idx =
     (if list_all (\<lambda>i. i < nrows t) idx
      then Inr (Tensor (dtype t) (vec t) (ncols t) (map (\<lambda>i. rows t ! i) idx))
      else Inl LibError)"

definition edge_batch_of :: "graph \<Rightarrow> edge_batch" where
  "edge_batch_of g =
     \<lparr>src = (\<lambda>k. bindE (field (srcframe g) k) (\<lambda>t. gather t (map fst (edges g)))),
      data = (\<lambda>k. field (edgeframe g) k),
      dst = (\<lambda>k. bindE (field (dstdata g) k) (\<lambda>t. gather t (map snd (edges g))))\<rparr>"

text \<open>
  The user-defined message function of the notebook:
  \<^verbatim>\<open>def u_mul_e_udf(edges): return {'m' : edges.src['h'] * edges.data['w']}\<close>
\<close>

definition u_mul_e_udf :: "edge_batch \<Rightarrow> error + frame" where
  "u_mul_e_udf eb =
     bindE (src eb ''h'') (\<lambda>x.
     bindE (data eb ''w'') (\<lambda>y.
     bindE (torch_mul x y) (\<lambda>m. Inr [(''m'', m)])))"

text \<open>
  Modelled from the spec: the product that the library's built-in \<open>fn.u_mul_e\<close>
  computes. The two features must have the same element type. Their rows, one per
  edge, are multiplied pairwise, the feature width broadcast; a one-dimensional
  feature counts as one entry per edge, and the result is one-dimensional only when
  both features are.
\<close>

definition row_mul :: "scalar list \<Rightarrow> scalar list \<Rightarrow> scalar list" where
  "row_mul a b =
     (if length a = length b then map2 times a b
      else if length b = 1 then map (\<lambda>x. x * hd b) a
      else if length a = 1 then map (\<lambda>y. hd a * y) b
      else [])"

definition dgl_mul :: "tensor \<Rightarrow> tensor \<Rightarrow> error + tensor" where
  "dgl_mul x y =
     (if dtype x \<noteq> dtype y then Inl LibError
      else if nrows x \<noteq> nrows y then Inl LibError
      else case broadcast (ncols x) (ncols y) of
             None \<Rightarrow> Inl LibError
           | Some d \<Rightarrow>
               Inr (Tensor (dtype x) (vec x \<and> vec y) d (map2 row_mul (rows x) (rows y))))"

text \<open>
  Modelled from the spec: the library's "built-in message/reduce function
  constructors", with the meaning the notebook gives them. Message functions: the
  built-in \<open>fn.copy_u(u, out)\<close> (the message is a copy of the node feature \<open>u\<close> of
  the source), the built-in \<open>fn.u_mul_e(u, e, out)\<close> (the product of the source
  feature \<open>u\<close> and the edge feature \<open>e\<close>), or a user-defined function of the edge
  batch. Reduce functions: the built-in \<open>fn.mean(msg, out)\<close> (the mean of all received
  messages \<open>msg\<close>, stored as the new node feature \<open>out\<close>).
\<close>

datatype message_fn =
    fn_copy_u string string
  | fn_u_mul_e string string string
  | udf "edge_batch \<Rightarrow> error + frame"

datatype reduce_fn = fn_mean string string

fun apply_message :: "message_fn \<Rightarrow> edge_batch \<Rightarrow> error + frame" where
  "apply_message (fn_copy_u u out) eb = bindE (src eb u) (\<lambda>x. Inr [(out, x)])"
| "apply_message (fn_u_mul_e u e out) eb =
     bindE (src eb u) (\<lambda>x.
     bindE (data eb e) (\<lambda>y.
     bindE (dgl_mul x y) (\<lambda>m. Inr [(out, m)])))"
| "apply_message (udf f) eb = f eb"

text \<open>
  Modelled from the spec: "aggregation (e.g., mean) of all messages arriving at a
  destination node". The messages arriving at destination node \<open>v\<close> are those of the
  edges that point to \<open>v\<close>, in edge order.
\<close>

definition mailbox :: "graph \<Rightarrow> tensor \<Rightarrow> nat \<Rightarrow> scalar list list" where
  "mailbox g mt v = map snd (filter (\<lambda>p. snd (fst p) = v) (zip (edges g) (rows mt)))"

definition sum_rows :: "nat \<Rightarrow> scalar list list \<Rightarrow> scalar list" where
  "sum_rows d ms = foldr (map2 (+)) ms (replicate d 0)"

text \<open>
  The mean of a mailbox: the sum of its rows, entry by entry, divided by their
  number. A node that receives no message has no mean; its row is filled with zeros,
  as the library's built-in reducers do. The reducer accepts messages of a
  floating-point type only, one per edge.
\<close>

definition mean_rows :: "nat \<Rightarrow> scalar list list \<Rightarrow> scalar list" where
  "mean_rows d ms =
     (if ms = [] then replicate d 0 else map (\<lambda>x. over x (length ms)) (sum_rows d ms))"

fun apply_reduce :: "reduce_fn \<Rightarrow> graph \<Rightarrow> frame \<Rightarrow> error + string \<times> tensor" where
  "apply_reduce (fn_mean msg out) g msgs =
     bindE (field msgs msg) (\<lambda>mt.
       if nrows mt \<noteq> length (edges g) \<or> \<not> floating (dtype mt) then Inl LibError
       else Inr (out, Tensor (dtype mt) (vec mt) (ncols mt)
                   (map (\<lambda>v. mean_rows (ncols mt) (mailbox g mt v)) [0..<num_dst g])))"

text \<open>
  Modelled from the spec: \<open>g.update_all(message_func, reduce_func)\<close>, the library's
  "generic propagate-and-reduce entry point": "one full round of message computation
  plus aggregation across all edges/nodes of a graph". The message function is
  applied to the batch of all edges, the reduce function to the mailbox of every
  destination node, and the result is stored as a destination feature.
\<close>

definition g_update_all :: "message_fn \<Rightarrow> reduce_fn \<Rightarrow> graph \<Rightarrow> error + unit \<times> graph" where
  "g_update_all mfn rfn g =
     bindE (apply_message mfn (edge_batch_of g)) (\<lambda>msgs.
     bindE (apply_reduce rfn g msgs) (\<lambda>r. Inr ((), put_dstdata (fst r) (snd r) g)))"

section \<open>Running a method: the graph, and the calls made on it\<close>

text \<open>
  A method of the notebook runs on one graph object \<open>g\<close>, which it changes in place.
  The state of a run is that graph and, in order, the calls the method has made on
  it. A run ends with a value or with an exception.
\<close>

datatype call =
    Local_scope
  | Number_of_dst_nodes
  | Set_srcdata string
  | Set_edata string
  | Update_all message_fn reduce_fn
  | Get_dstdata string

record world =
  gr :: graph
  trace :: "call list"

type_synonym 'a prog = "world \<Rightarrow> (error + 'a) \<times> world"

definition ret :: "'a \<Rightarrow> 'a prog" where
  "ret v s = (Inr v, s)"

definition lift :: "error + 'a \<Rightarrow> 'a prog" where
  "lift r s = (r, s)"

definition seq :: "'a prog \<Rightarrow> ('a \<Rightarrow> 'b prog) \<Rightarrow> 'b prog" where
  "seq m f s = (case m s of (Inl e, s') \<Rightarrow> (Inl e, s') | (Inr v, s') \<Rightarrow> f v s')"

text \<open>A call on the graph: it is recorded, and its effect on the graph takes place.\<close>

definition on_graph :: "call \<Rightarrow> (graph \<Rightarrow> error + 'a \<times> graph) \<Rightarrow> 'a prog" where
  "on_graph c f s =
     (case f (gr s) of
        Inl e \<Rightarrow> (Inl e, s\<lparr>trace := trace s @ [c]\<rparr>)
      | Inr r \<Rightarrow> (Inr (fst r), \<lparr>gr = snd r, trace = trace s @ [c]\<rparr>))"

definition number_of_dst_nodes :: "nat prog" where
  "number_of_dst_nodes = on_graph Number_of_dst_nodes (\<lambda>g. Inr (num_dst g, g))"

definition set_srcdata :: "string \<Rightarrow> tensor \<Rightarrow> unit prog" where
  "set_srcdata k t = on_graph (Set_srcdata k) (g_set_srcdata k t)"

definition set_edata :: "string \<Rightarrow> tensor \<Rightarrow> unit prog" where
  "set_edata k t = on_graph (Set_edata k) (g_set_edata k t)"

definition update_all :: "message_fn \<Rightarrow> reduce_fn \<Rightarrow> unit prog" where
  "update_all mfn rfn = on_graph (Update_all mfn rfn) (g_update_all mfn rfn)"

definition get_dstdata :: "string \<Rightarrow> tensor prog" where
  "get_dstdata k = on_graph (Get_dstdata k) (g_get_dstdata k)"

text \<open>
  Modelled from the spec: \<open>with g.local_scope(): body\<close>, the library's "mechanism for
  scoped (non-persistent) mutation of graph-attached data". On entry the feature
  frames are saved; when the body ends with a value they are put back. Neither the
  spec nor the notebook says whether they are also put back when the body raises:
  the library's answer is the parameter \<open>restores_on_raise\<close>.
\<close>

record library =
  restores_on_raise :: bool

definition restore :: "graph \<Rightarrow> graph \<Rightarrow> graph" where
  "restore saved g =
     g\<lparr>srcframe := srcframe saved, dstframe := dstframe saved, edgeframe := edgeframe saved\<rparr>"

definition local_scope :: "library \<Rightarrow> 'a prog \<Rightarrow> 'a prog" where
  "local_scope L body s =
     (let s0 = s\<lparr>trace := trace s @ [Local_scope]\<rparr> in
      case body s0 of
        (Inr v, s1) \<Rightarrow> (Inr v, s1\<lparr>gr := restore (gr s0) (gr s1)\<rparr>)
      | (Inl e, s1) \<Rightarrow>
          (Inl e, if restores_on_raise L then s1\<lparr>gr := restore (gr s0) (gr s1)\<rparr> else s1))"

text \<open>
  Reading a name. The notebook binds at module level only \<open>dgl\<close>, \<open>torch\<close>, \<open>nn\<close>,
  \<open>F\<close>, \<open>fn\<close>, \<open>SAGEConv\<close> and \<open>u_mul_e_udf\<close>, none of them a tensor; so a tensor
  name is read from the local variables bound so far, and a name that is not among
  them raises \<open>NameError\<close>.
\<close>

definition load_name :: "(string \<times> tensor) list \<Rightarrow> string \<Rightarrow> error + tensor" where
  "load_name locals n = (case map_of locals n of None \<Rightarrow> Inl (NameError n) | Some v \<Rightarrow> Inr v)"

section \<open>The two SAGEConv modules\<close>

text \<open>
  Both classes have the same constructor:
  \<^verbatim>\<open>self.linear = nn.Linear(in_feat * 2, out_feat)\<close>
  The initial weight and bias, which the framework draws at random, are parameters.
\<close>

record SAGEConv =
  linear :: Linear

definition SAGEConv_init :: "nat \<Rightarrow> nat \<Rightarrow> scalar list list \<Rightarrow> scalar list \<Rightarrow> SAGEConv" where
  "SAGEConv_init in_feat out_feat W b =
     \<lparr>linear = \<lparr>in_features = in_feat * 2, out_features = out_feat, weight = W, bias = b,
                 param_dtype = Float32\<rparr>\<rparr>"

text \<open>
  The first class (cell 2):
  \<^verbatim>\<open>
  def forward(self, g, h):
      with g.local_scope():
          g.srcdata['h'] = h
          g.update_all(fn.copy_u('h', 'm'), fn.mean('m', 'h_neigh'))
          h_neigh = g.dstdata['h_neigh']
          h_total = torch.cat([h_dst, h_neigh], dim=1)
          return F.relu(self.linear(h_total))
  \<close>
  When \<open>h_dst\<close> is read, the local variables that hold tensors are \<open>h\<close> and
  \<open>h_neigh\<close>.
\<close>

definition SAGEConv1_forward :: "library \<Rightarrow> SAGEConv \<Rightarrow> tensor \<Rightarrow> tensor prog" where
  "SAGEConv1_forward L self h =
     local_scope L
       (seq (set_srcdata ''h'' h) (\<lambda>_.
        seq (update_all (fn_copy_u ''h'' ''m'') (fn_mean ''m'' ''h_neigh'')) (\<lambda>_.
        seq (get_dstdata ''h_neigh'') (\<lambda>h_neigh.
        seq (lift (load_name [(''h'', h), (''h_neigh'', h_neigh)] ''h_dst'')) (\<lambda>h_dst.
        seq (lift (torch_cat h_dst h_neigh)) (\<lambda>h_total.
        seq (lift (Linear_forward (linear self) h_total)) (\<lambda>y.
        ret (F_relu y))))))))"

text \<open>
  The second class (cell 3):
  \<^verbatim>\<open>
  def forward(self, g, h, w):
      h_dst = h[:g.number_of_dst_nodes()]
      with g.local_scope():
          g.srcdata['h'] = h
          g.edata['w'] = w
          g.update_all(fn.u_mul_e('h', 'w', 'm'), fn.mean('m', 'h_neigh'))
          h_neigh = g.dstdata['h_neigh']
          h_total = torch.cat([h_dst, h_neigh], dim=1)
          return F.relu(self.linear(h_total))
  \<close>
  The body of the scope takes the message function as a parameter, so that the
  user-defined function can be put in the place of the built-in one.
\<close>

definition SAGEConv2_body ::
  "message_fn \<Rightarrow> SAGEConv \<Rightarrow> tensor \<Rightarrow> tensor \<Rightarrow> tensor \<Rightarrow> tensor prog" where
  "SAGEConv2_body mfn self h w h_dst =
     seq (set_srcdata ''h'' h) (\<lambda>_.
     seq (set_edata ''w'' w) (\<lambda>_.
     seq (update_all mfn (fn_mean ''m'' ''h_neigh'')) (\<lambda>_.
     seq (get_dstdata ''h_neigh'') (\<lambda>h_neigh.
     seq (lift (torch_cat h_dst h_neigh)) (\<lambda>h_total.
     seq (lift (Linear_forward (linear self) h_total)) (\<lambda>y.
     ret (F_relu y)))))))"

definition SAGEConv2_forward_with ::
  "message_fn \<Rightarrow> library \<Rightarrow> SAGEConv \<Rightarrow> tensor \<Rightarrow> tensor \<Rightarrow> tensor prog" where
  "SAGEConv2_forward_with mfn L self h w =
     seq number_of_dst_nodes (\<lambda>n.
       local_scope L (SAGEConv2_body mfn self h w (slice_to h n)))"

definition SAGEConv2_forward :: "library \<Rightarrow> SAGEConv \<Rightarrow> tensor \<Rightarrow> tensor \<Rightarrow> tensor prog" where
  "SAGEConv2_forward = SAGEConv2_forward_with (fn_u_mul_e ''h'' ''w'' ''m'')"

text \<open>The calls a run adds to the trace, and those of them that are \<open>update_all\<close>.\<close>

definition calls_of :: "'a prog \<Rightarrow> world \<Rightarrow> call list" where
  "calls_of m s = drop (length (trace s)) (trace (snd (m s)))"

fun is_update_all :: "call \<Rightarrow> bool" where
  "is_update_all (Update_all mfn rfn) = True"
| "is_update_all c = False"

section \<open>Notions used in the statements\<close>

text \<open>The part of a graph that no feature assignment touches: its nodes and edges.\<close>

definition shape_of :: "graph \<Rightarrow> bool \<times> nat \<times> nat \<times> (nat \<times> nat) list" where
  "shape_of g = (is_block g, num_src g, num_dst g, edges g)"

definition keeps :: "'a prog \<Rightarrow> bool" where
  "keeps m = (\<forall>s. shape_of (gr (snd (m s))) = shape_of (gr s))"

text \<open>A run that ends with an exception from every state.\<close>

definition raises :: "'a prog \<Rightarrow> bool" where
  "raises m = (\<forall>s. \<exists>e. fst (m s) = Inl e)"

text \<open>
  The rows of a node feature at the source of each edge, and the tensor of the means
  of the mailboxes.
\<close>

definition source_rows :: "graph \<Rightarrow> tensor \<Rightarrow> tensor" where
  "source_rows g h = Tensor (dtype h) (vec h) (ncols h) (map (\<lambda>e. rows h ! fst e) (edges g))"

definition mean_of :: "graph \<Rightarrow> tensor \<Rightarrow> tensor" where
  "mean_of g mt =
     Tensor (dtype mt) (vec mt) (ncols mt)
       (map (\<lambda>v. mean_rows (ncols mt) (mailbox g mt v)) [0..<num_dst g])"

text \<open>
  What a run adds to the trace: \<open>emits m P\<close> when, from every state, the calls
  that \<open>m\<close> adds satisfy \<open>P\<close>. A list of calls is \<open>quiet\<close> when none of them is
  \<open>update_all\<close>, and holds \<open>once c\<close> when its only \<open>update_all\<close> is the call \<open>c\<close>.
\<close>

definition emits :: "'a prog \<Rightarrow> (call list \<Rightarrow> bool) \<Rightarrow> bool" where
  "emits m P = (\<forall>s. \<exists>cs. trace (snd (m s)) = trace s @ cs \<and> P cs)"

definition quiet :: "call list \<Rightarrow> bool" where
  "quiet cs = (filter is_update_all cs = [])"

definition once :: "call \<Rightarrow> call list \<Rightarrow> bool" where
  "once c cs = (filter is_update_all cs = [c])"

subsection \<open>A small graph, for the examples\<close>

text \<open>
  Three nodes and the edges \<open>0 \<rightarrow> 1\<close>, \<open>2 \<rightarrow> 1\<close>, \<open>1 \<rightarrow> 0\<close>; node 2 receives nothing.
  One feature per node, one weight per edge.
\<close>

definition ex_h :: tensor where
  "ex_h = Tensor Float32 False 1 [[Num 1], [Num 2], [Num 3]]"

definition ex_w :: tensor where
  "ex_w = Tensor Float32 False 1 [[Num 2], [Num 2], [Num 2]]"

definition ex_graph :: graph where
  "ex_graph =
     \<lparr>is_block = False, num_src = 3, num_dst = 3, edges = [(0, 1), (2, 1), (1, 0)],
      srcframe = [(''h'', ex_h)], dstframe = [], edgeframe = [(''w'', ex_w)]\<rparr>"

definition ex_world :: world where
  "ex_world = \<lparr>gr = ex_graph, trace = []\<rparr>"

definition ex_conv :: SAGEConv where
  "ex_conv = SAGEConv_init 1 1 [[Num 1, Num (- 1)]] [Num 0]"

text \<open>A feature tensor with two rows: one too few for the three nodes.\<close>

definition ex_h_short :: tensor where
  "ex_h_short = Tensor Float32 False 1 [[Num 1], [Num 2]]"

text \<open>A feature tensor with four rows: it covers the three nodes and has one row more.\<close>

definition ex_h_long :: tensor where
  "ex_h_long = Tensor Float32 False 1 [[Num 1], [Num 2], [Num 3], [Num 4]]"

text \<open>A weight tensor with two rows: one too few for the three edges.\<close>

definition ex_w_short :: tensor where
  "ex_w_short = Tensor Float32 False 1 [[Num 2], [Num 2]]"

text \<open>Another feature for the three nodes; a feature with a NaN; an integer feature.\<close>

definition ex_h' :: tensor where
  "ex_h' = Tensor Float32 False 1 [[Num 5], [Num 5], [Num 5]]"

definition ex_h_nan :: tensor where
  "ex_h_nan = Tensor Float32 False 1 [[Num 1], [NaN], [Num 3]]"

definition ex_h_int :: tensor where
  "ex_h_int = Tensor Int64 False 1 [[Num 1], [Num 2], [Num 3]]"

text \<open>Weights of another floating-point type than the feature.\<close>

definition ex_w_double :: tensor where
  "ex_w_double = Tensor Float64 False 1 [[Num 2], [Num 2], [Num 2]]"

text \<open>
  A block with two source nodes and three destination nodes, and a feature with one
  row per source node.
\<close>

definition ex_block :: graph where
  "ex_block =
     \<lparr>is_block = True, num_src = 2, num_dst = 3, edges = [(0, 1), (1, 2)],
      srcframe = [], dstframe = [], edgeframe = []\<rparr>"

definition ex_h_two :: tensor where
  "ex_h_two = Tensor Float32 False 1 [[Num 1], [Num 2]]"

definition ex_w_two :: tensor where
  "ex_w_two = Tensor Float32 False 1 [[Num 2], [Num 2]]"

text \<open>
  Three features per node, and one weight per edge given as a one-dimensional
  tensor: its length, the number of edges, happens to be the feature width. A second
  weight tensor differs from it at edge 0 only.
\<close>

definition ex_h3 :: tensor where
  "ex_h3 = Tensor Float32 False 3
     [[Num 1, Num 2, Num 3], [Num 4, Num 5, Num 6], [Num 7, Num 8, Num 9]]"

definition ex_w_vec :: tensor where
  "ex_w_vec = Tensor Float32 True 1 [[Num 2], [Num 3], [Num 4]]"

definition ex_w_vec' :: tensor where
  "ex_w_vec' = Tensor Float32 True 1 [[Num 5], [Num 3], [Num 4]]"

definition ex_graph3 :: "tensor \<Rightarrow> graph" where
  "ex_graph3 w =
     \<lparr>is_block = False, num_src = 3, num_dst = 3, edges = [(0, 1), (2, 1), (1, 0)],
      srcframe = [(''h'', ex_h3)], dstframe = [], edgeframe = [(''w'', w)]\<rparr>"

definition ex_conv3 :: SAGEConv where
  "ex_conv3 = SAGEConv_init 3 1 [[Num 1, Num 1, Num 1, Num 1, Num 1, Num 1]] [Num 0]"

text \<open>
  The two possible libraries: one whose scope puts the frames back on a raise, one
  whose scope does not.
\<close>

definition lib_restoring :: library where
  "lib_restoring = \<lparr>restores_on_raise = True\<rparr>"

definition lib_leaving :: library where
  "lib_leaving = \<lparr>restores_on_raise = False\<rparr>"

section \<open>Basic facts\<close>

lemma field_update_same: "field (AList.update k t fr) k = Inr t"
  by (simp add: field_def update_conv')

lemma field_dstdata_put: "field (dstdata (put_dstdata k t g)) k = Inr t"
  by (simp add: dstdata_def put_dstdata_def field_update_same)

lemma gather_sources:
  assumes "list_all (\<lambda>e. fst e < nrows t) (edges g)"
  shows "gather t (map fst (edges g)) = Inr (source_rows g t)"
  using assms by (auto simp: gather_def list_all_iff comp_def source_rows_def)

subsection \<open>Sums and means of rows\<close>

lemma length_sum_rows:
  "list_all (\<lambda>r. length r = d) ms \<Longrightarrow> length (sum_rows d ms) = d"
  by (induction ms) (simp_all add: sum_rows_def)

lemma nth_sum_rows:
  "list_all (\<lambda>r. length r = d) ms \<Longrightarrow> j < d \<Longrightarrow> sum_rows d ms ! j = (\<Sum>r\<leftarrow>ms. r ! j)"
proof (induction ms)
  case Nil
  then show ?case by (simp add: sum_rows_def)
next
  case (Cons r ms)
  then have "length (sum_rows d ms) = d" by (simp add: length_sum_rows)
  with Cons show ?case by (simp add: sum_rows_def)
qed

lemma length_mean_rows:
  "list_all (\<lambda>r. length r = d) ms \<Longrightarrow> length (mean_rows d ms) = d"
  by (simp add: mean_rows_def length_sum_rows)

lemma nth_mean_rows:
  "list_all (\<lambda>r. length r = d) ms \<Longrightarrow> ms \<noteq> [] \<Longrightarrow> j < d \<Longrightarrow>
   mean_rows d ms ! j = over (\<Sum>r\<leftarrow>ms. r ! j) (length ms)"
  by (simp add: mean_rows_def length_sum_rows nth_sum_rows)

lemma sum_list_numbers:
  "list_all (\<lambda>x. x \<noteq> NaN) xs \<Longrightarrow> sum_list xs = Num (\<Sum>x\<leftarrow>xs. num x)"
proof (induction xs)
  case Nil
  then show ?case by (simp add: zero_scalar_def)
next
  case (Cons x xs)
  then show ?case by (cases x) simp_all
qed

subsection \<open>Mailboxes\<close>

lemma zip_as_map:
  "length xs = length ys \<Longrightarrow> zip xs ys = map (\<lambda>i. (xs ! i, ys ! i)) [0..<length xs]"
  by (rule nth_equalityI) simp_all

lemma mailbox_index:
  assumes "nrows mt = length (edges g)"
  shows "mailbox g mt v =
         map (\<lambda>i. rows mt ! i) (filter (\<lambda>i. snd (edges g ! i) = v) [0..<length (edges g)])"
proof -
  have "zip (edges g) (rows mt) = map (\<lambda>i. (edges g ! i, rows mt ! i)) [0..<length (edges g)]"
    using assms by (simp add: zip_as_map nrows_def)
  then show ?thesis
    by (simp add: mailbox_def filter_map comp_def)
qed

lemma mailbox_rows:
  "is_tensor mt \<Longrightarrow> list_all (\<lambda>r. length r = ncols mt) (mailbox g mt v)"
  by (auto simp: is_tensor_def mailbox_def list_all_iff dest: set_zip_rightD)

section \<open>The reduce function: means of the arriving messages\<close>

text \<open>
  C1, as amended. Whatever the message function, once it has produced a message
  tensor \<open>m\<close> of a floating-point element type (float32 or float64) with one row
  per edge, \<open>update_all\<close> with \<open>fn.mean('m', 'h_neigh')\<close> succeeds and stores a
  destination feature \<open>h_neigh\<close> with one row per destination node. The messages
  arriving at node \<open>v\<close> are those of the edges whose destination is \<open>v\<close> (the
  direction of the edges is respected), and where at least one arrives, every entry
  of row \<open>v\<close> of \<open>h_neigh\<close> is the sum of that entry over the arriving messages
  divided by their number: the arithmetic mean. On entries that are numbers this is
  the quotient of the real sum by the count; a NaN among the summands makes the mean
  NaN. This holds for the call of both \<open>forward\<close> methods, which differ in the
  message function only.
\<close>

theorem update_all_stores_mean:
  assumes msgs: "apply_message mfn (edge_batch_of g) = Inr msgs"
    and m: "field msgs ''m'' = Inr mt"
    and n: "nrows mt = length (edges g)"
    and t: "is_tensor mt"
    and f: "floating (dtype mt)"
  shows "\<exists>g' t. g_update_all mfn (fn_mean ''m'' ''h_neigh'') g = Inr ((), g') \<and>
           field (dstdata g') ''h_neigh'' = Inr t \<and>
           has_shape t (num_dst g) (ncols mt) \<and>
           (\<forall>v<num_dst g.
              mailbox g mt v =
                map (\<lambda>i. rows mt ! i)
                  (filter (\<lambda>i. snd (edges g ! i) = v) [0..<length (edges g)]) \<and>
              (mailbox g mt v \<noteq> [] \<longrightarrow>
                (\<forall>j<ncols mt.
                   rows t ! v ! j =
                     over (\<Sum>r\<leftarrow>mailbox g mt v. r ! j) (length (mailbox g mt v)) \<and>
                   (list_all (\<lambda>r. r ! j \<noteq> NaN) (mailbox g mt v) \<longrightarrow>
                      rows t ! v ! j =
                        Num ((\<Sum>r\<leftarrow>mailbox g mt v. num (r ! j)) /
                             real (length (mailbox g mt v)))))))"
proof -
  let ?g' = "put_dstdata ''h_neigh'' (mean_of g mt) g"
  have run: "g_update_all mfn (fn_mean ''m'' ''h_neigh'') g = Inr ((), ?g')"
    using msgs m n f by (simp add: g_update_all_def bindE_def mean_of_def)
  have shape: "has_shape (mean_of g mt) (num_dst g) (ncols mt)"
    using mailbox_rows[OF t] t
    by (simp add: mean_of_def has_shape_def nrows_def is_tensor_def list_all_iff length_mean_rows)
  have mean: "rows (mean_of g mt) ! v ! j =
      over (\<Sum>r\<leftarrow>mailbox g mt v. r ! j) (length (mailbox g mt v))"
    if "v < num_dst g" "mailbox g mt v \<noteq> []" "j < ncols mt" for v j
    using that mailbox_rows[OF t, of g v] by (simp add: mean_of_def nth_mean_rows)
  have numbers: "rows (mean_of g mt) ! v ! j =
      Num ((\<Sum>r\<leftarrow>mailbox g mt v. num (r ! j)) / real (length (mailbox g mt v)))"
    if "v < num_dst g" "mailbox g mt v \<noteq> []" "j < ncols mt"
      "list_all (\<lambda>r. r ! j \<noteq> NaN) (mailbox g mt v)" for v j
  proof -
    have "list_all (\<lambda>x. x \<noteq> NaN) (map (\<lambda>r. r ! j) (mailbox g mt v))"
      using that(4) by (simp add: list_all_iff)
    from sum_list_numbers[OF this]
    have "(\<Sum>r\<leftarrow>mailbox g mt v. r ! j) = Num (\<Sum>r\<leftarrow>mailbox g mt v. num (r ! j))"
      by (simp add: comp_def)
    with mean[OF that(1,2,3)] show ?thesis by simp
  qed
  show ?thesis
    using run shape mean numbers mailbox_index[OF n] field_dstdata_put by blast
qed

text \<open>
  On the example graph, with the message function \<open>fn.copy_u('h', 'm')\<close>: the
  messages are the features of the sources of the three edges, node 1 receives those
  of edges 0 and 1, and its mean is \<open>(1 + 3) / 2\<close>.
\<close>

theorem update_all_stores_mean_witness:
  "\<exists>g' t. g_update_all (fn_copy_u ''h'' ''m'') (fn_mean ''m'' ''h_neigh'') ex_graph = Inr ((), g') \<and>
      field (dstdata g') ''h_neigh'' = Inr t \<and> has_shape t 3 1 \<and>
      mailbox ex_graph (Tensor Float32 False 1 [[Num 1], [Num 3], [Num 2]]) 1 = [[Num 1], [Num 3]] \<and>
      rows t ! 1 ! 0 = Num ((1 + 3) / 2)"
proof -
  let ?mt = "Tensor Float32 False 1 [[Num 1], [Num 3], [Num 2]]"
  have a: "apply_message (fn_copy_u ''h'' ''m'') (edge_batch_of ex_graph) = Inr [(''m'', ?mt)]"
    by (simp add: edge_batch_of_def ex_graph_def ex_h_def bindE_def field_def gather_def nrows_def)
  have b: "field [(''m'', ?mt)] ''m'' = Inr ?mt" by (simp add: field_def)
  have c: "nrows ?mt = length (edges ex_graph)" by (simp add: nrows_def ex_graph_def)
  have d: "is_tensor ?mt" by (simp add: is_tensor_def)
  have e: "floating (dtype ?mt)" by (simp add: floating_def)
  have mb: "mailbox ex_graph ?mt 1 = [[Num 1], [Num 3]]" by (simp add: mailbox_def ex_graph_def)
  from update_all_stores_mean[OF a b c d e] obtain g' t where
    r: "g_update_all (fn_copy_u ''h'' ''m'') (fn_mean ''m'' ''h_neigh'') ex_graph = Inr ((), g')"
       "field (dstdata g') ''h_neigh'' = Inr t" "has_shape t (num_dst ex_graph) (ncols ?mt)"
    and mean: "\<forall>v<num_dst ex_graph. mailbox ex_graph ?mt v \<noteq> [] \<longrightarrow>
        (\<forall>j<ncols ?mt. list_all (\<lambda>r. r ! j \<noteq> NaN) (mailbox ex_graph ?mt v) \<longrightarrow>
           rows t ! v ! j =
             Num ((\<Sum>r\<leftarrow>mailbox ex_graph ?mt v. num (r ! j)) /
                  real (length (mailbox ex_graph ?mt v))))"
    by blast
  have "1 < num_dst ex_graph" by (simp add: ex_graph_def)
  with mean mb have "rows t ! 1 ! 0 = Num ((1 + 3) / 2)" by fastforce
  with r mb show ?thesis by (auto simp: ex_graph_def)
qed

text \<open>
  C1 as first stated fails: it speaks of every assignment of messages. With the
  integer feature on the three nodes, \<open>fn.copy_u('h', 'm')\<close> produces one integer
  message per edge, and \<open>update_all\<close> with \<open>fn.mean('m', 'h_neigh')\<close> raises: the
  library's reducer takes floating-point messages only, and no mean is stored.
\<close>

theorem update_all_stores_mean_counterexample:
  "apply_message (fn_copy_u ''h'' ''m'') (edge_batch_of (ex_graph\<lparr>srcframe := [(''h'', ex_h_int)]\<rparr>)) =
     Inr [(''m'', Tensor Int64 False 1 [[Num 1], [Num 3], [Num 2]])] \<and>
   nrows (Tensor Int64 False 1 [[Num 1], [Num 3], [Num 2]]) =
     length (edges (ex_graph\<lparr>srcframe := [(''h'', ex_h_int)]\<rparr>)) \<and>
   is_tensor (Tensor Int64 False 1 [[Num 1], [Num 3], [Num 2]]) \<and>
   g_update_all (fn_copy_u ''h'' ''m'') (fn_mean ''m'' ''h_neigh'')
     (ex_graph\<lparr>srcframe := [(''h'', ex_h_int)]\<rparr>) = Inl LibError"
  by (simp add: g_update_all_def edge_batch_of_def bindE_def field_def gather_def nrows_def
      is_tensor_def floating_def ex_graph_def ex_h_int_def)

section \<open>Scoped mutation\<close>

subsection \<open>Nodes and edges are kept\<close>

lemma keeps_ret: "keeps (ret v)" by (simp add: keeps_def ret_def)
lemma keeps_lift: "keeps (lift r)" by (simp add: keeps_def lift_def)
lemma keeps_seq:
  assumes "keeps m" and "\<And>v. keeps (f v)"
  shows "keeps (seq m f)"
proof -
  have "shape_of (gr (snd (seq m f s))) = shape_of (gr s)" for s
  proof (cases "m s")
    case (Pair r s')
    have s': "shape_of (gr s') = shape_of (gr s)"
      using assms(1) Pair by (auto simp: keeps_def dest: spec[of _ s])
    show ?thesis
    proof (cases r)
      case (Inl e)
      with Pair s' show ?thesis by (simp add: seq_def)
    next
      case (Inr v)
      have "shape_of (gr (snd (f v s'))) = shape_of (gr s')"
        using assms(2)[of v] by (simp add: keeps_def)
      with Pair Inr s' show ?thesis by (simp add: seq_def)
    qed
  qed
  then show ?thesis by (simp add: keeps_def)
qed

lemma keeps_set_srcdata: "keeps (set_srcdata k t)"
  by (simp add: keeps_def set_srcdata_def on_graph_def g_set_srcdata_def shape_of_def)
lemma keeps_set_edata: "keeps (set_edata k t)"
  by (simp add: keeps_def set_edata_def on_graph_def g_set_edata_def shape_of_def)
lemma keeps_get_dstdata: "keeps (get_dstdata k)"
  by (simp add: keeps_def get_dstdata_def on_graph_def g_get_dstdata_def bindE_def shape_of_def split: sum.splits)
lemma keeps_update_all: "keeps (update_all mfn rfn)"
  by (simp add: keeps_def update_all_def on_graph_def g_update_all_def bindE_def put_dstdata_def shape_of_def split: sum.splits)

lemma restore_same: "shape_of g1 = shape_of g \<Longrightarrow> restore g g1 = g"
  by (simp add: restore_def shape_of_def)

lemma keeps_body1:
  "keeps (seq (set_srcdata ''h'' h) (\<lambda>_.
        seq (update_all (fn_copy_u ''h'' ''m'') (fn_mean ''m'' ''h_neigh'')) (\<lambda>_.
        seq (get_dstdata ''h_neigh'') (\<lambda>h_neigh.
        seq (lift (load_name [(''h'', h), (''h_neigh'', h_neigh)] ''h_dst'')) (\<lambda>h_dst.
        seq (lift (torch_cat h_dst h_neigh)) (\<lambda>h_total.
        seq (lift (Linear_forward (linear self) h_total)) (\<lambda>y.
        ret (F_relu y))))))))"
  by (intro keeps_seq keeps_set_srcdata keeps_update_all keeps_get_dstdata keeps_lift keeps_ret)

lemma keeps_body2: "keeps (SAGEConv2_body mfn self h w h_dst)"
  unfolding SAGEConv2_body_def
  by (intro keeps_seq keeps_set_srcdata keeps_set_edata keeps_update_all keeps_get_dstdata keeps_lift keeps_ret)

lemma local_scope_restores:
  assumes "keeps body"
    and "restores_on_raise L \<or> (\<exists>v. fst (local_scope L body s) = Inr v)"
  shows "gr (snd (local_scope L body s)) = gr s"
proof -
  let ?s0 = "s\<lparr>trace := trace s @ [Local_scope]\<rparr>"
  obtain r s1 where b: "body ?s0 = (r, s1)" by (cases "body ?s0")
  have "shape_of (gr s1) = shape_of (gr ?s0)"
    using assms(1) b by (auto simp: keeps_def dest: spec[of _ ?s0])
  then have "restore (gr s) (gr s1) = gr s" by (simp add: restore_same)
  with assms(2) b show ?thesis
    by (auto simp: local_scope_def Let_def split: sum.splits if_splits)
qed

lemma forward2_with_unfold:
  "SAGEConv2_forward_with mfn L self h w s =
   local_scope L (SAGEConv2_body mfn self h w (slice_to h (num_dst (gr s))))
     \<lparr>gr = gr s, trace = trace s @ [Number_of_dst_nodes]\<rparr>"
  by (simp add: SAGEConv2_forward_with_def seq_def number_of_dst_nodes_def on_graph_def)

text \<open>
  C4. The assignments to \<open>g.srcdata['h']\<close> and \<open>g.edata['w']\<close> and the feature
  \<open>h_neigh\<close> that \<open>update_all\<close> writes all happen inside \<open>g.local_scope()\<close>, and
  nothing outside it changes the graph. So whenever a \<open>forward\<close> method returns a
  value, the graph, and with it every node and edge feature, is what it was before
  the call. For the first method this says little, since it never returns (C3);
  when a method raises, it leaves the graph as it was if the scope puts the frames
  back on a raise.
\<close>

theorem forward_scoped:
  "(\<forall>v s'. SAGEConv2_forward L self h w s = (Inr v, s') \<longrightarrow> gr s' = gr s) \<and>
   (\<forall>v s'. SAGEConv1_forward L self' h' s = (Inr v, s') \<longrightarrow> gr s' = gr s) \<and>
   (restores_on_raise L \<longrightarrow> gr (snd (SAGEConv2_forward L self h w s)) = gr s) \<and>
   (restores_on_raise L \<longrightarrow> gr (snd (SAGEConv1_forward L self' h' s)) = gr s)"
proof (intro conjI allI impI)
  fix v s' assume r: "SAGEConv1_forward L self' h' s = (Inr v, s')"
  then have "\<exists>v. fst (SAGEConv1_forward L self' h' s) = Inr v" by simp
  then have "gr (snd (SAGEConv1_forward L self' h' s)) = gr s"
    unfolding SAGEConv1_forward_def by (intro local_scope_restores keeps_body1 disjI2)
  with r show "gr s' = gr s" by simp
next
  fix v s' assume "SAGEConv2_forward L self h w s = (Inr v, s')"
  then have r: "local_scope L (SAGEConv2_body (fn_u_mul_e ''h'' ''w'' ''m'') self h w (slice_to h (num_dst (gr s))))
     \<lparr>gr = gr s, trace = trace s @ [Number_of_dst_nodes]\<rparr> = (Inr v, s')"
    by (simp add: SAGEConv2_forward_def forward2_with_unfold)
  then have "\<exists>v. fst (local_scope L (SAGEConv2_body (fn_u_mul_e ''h'' ''w'' ''m'') self h w (slice_to h (num_dst (gr s))))
     \<lparr>gr = gr s, trace = trace s @ [Number_of_dst_nodes]\<rparr>) = Inr v" by simp
  from local_scope_restores[OF keeps_body2 disjI2, OF this] r show "gr s' = gr s" by simp
next
  assume "restores_on_raise L"
  from local_scope_restores[OF keeps_body2 disjI1, OF this]
  show "gr (snd (SAGEConv2_forward L self h w s)) = gr s"
    by (simp add: SAGEConv2_forward_def forward2_with_unfold)
next
  assume "restores_on_raise L"
  from local_scope_restores[OF keeps_body1 disjI1, OF this]
  show "gr (snd (SAGEConv1_forward L self' h' s)) = gr s"
    by (simp add: SAGEConv1_forward_def)
qed

section \<open>The calls of \<open>update_all\<close>\<close>

lemma emits_ret: "emits (ret v) (\<lambda>cs. cs = [])"
  by (simp add: emits_def ret_def)

lemma emits_lift: "emits (lift r) (\<lambda>cs. cs = [])"
  by (simp add: emits_def lift_def)

lemma emits_on_graph: "emits (on_graph c f) (\<lambda>cs. cs = [c])"
  by (simp add: emits_def on_graph_def split: sum.splits)

lemma emits_seq:
  assumes "emits m P" and "\<And>v. emits (f v) Q"
  shows "emits (seq m f) (\<lambda>cs. P cs \<or> (\<exists>a b. cs = a @ b \<and> P a \<and> Q b))"
proof -
  have "\<exists>cs. trace (snd (seq m f s)) = trace s @ cs \<and> (P cs \<or> (\<exists>a b. cs = a @ b \<and> P a \<and> Q b))" for s
  proof (cases "m s")
    case (Pair r s')
    from assms(1) Pair obtain a where a: "trace s' = trace s @ a" "P a"
      by (auto simp: emits_def dest: spec[of _ s])
    show ?thesis
    proof (cases r)
      case (Inl e)
      with Pair a show ?thesis by (auto simp: seq_def)
    next
      case (Inr v)
      from assms(2)[of v] obtain b where b: "trace (snd (f v s')) = trace s' @ b" "Q b"
        by (auto simp: emits_def)
      with Pair Inr a show ?thesis by (auto simp: seq_def)
    qed
  qed
  then show ?thesis by (simp add: emits_def)
qed

lemma emits_weaken: "emits m P \<Longrightarrow> (\<And>cs. P cs \<Longrightarrow> Q cs) \<Longrightarrow> emits m Q"
  by (auto simp: emits_def)

lemma emits_local_scope:
  assumes "emits body P"
  shows "emits (local_scope L body) (\<lambda>cs. \<exists>b. cs = Local_scope # b \<and> P b)"
proof -
  have "\<exists>cs. trace (snd (local_scope L body s)) = trace s @ cs \<and> (\<exists>b. cs = Local_scope # b \<and> P b)" for s
  proof -
    let ?s0 = "s\<lparr>trace := trace s @ [Local_scope]\<rparr>"
    obtain r s1 where b: "body ?s0 = (r, s1)" by (cases "body ?s0")
    from assms b obtain cs where "trace s1 = trace ?s0 @ cs" "P cs"
      by (auto simp: emits_def dest: spec[of _ ?s0])
    with b show ?thesis
      by (auto simp: local_scope_def Let_def split: sum.splits)
  qed
  then show ?thesis by (simp add: emits_def)
qed

lemma emits_calls: "emits m P \<Longrightarrow> P (calls_of m s)"
  by (auto simp: emits_def calls_of_def dest: spec[of _ s])

lemma emits_quiet_lift: "emits (lift r) quiet"
  by (rule emits_weaken[OF emits_lift]) (simp add: quiet_def)
lemma emits_quiet_ret: "emits (ret r) quiet"
  by (rule emits_weaken[OF emits_ret]) (simp add: quiet_def)
lemma emits_quiet_set_srcdata: "emits (set_srcdata k t) quiet"
  unfolding set_srcdata_def by (rule emits_weaken[OF emits_on_graph]) (simp add: quiet_def)
lemma emits_quiet_set_edata: "emits (set_edata k t) quiet"
  unfolding set_edata_def by (rule emits_weaken[OF emits_on_graph]) (simp add: quiet_def)
lemma emits_quiet_get_dstdata: "emits (get_dstdata k) quiet"
  unfolding get_dstdata_def by (rule emits_weaken[OF emits_on_graph]) (simp add: quiet_def)
lemma emits_quiet_number: "emits number_of_dst_nodes quiet"
  unfolding number_of_dst_nodes_def by (rule emits_weaken[OF emits_on_graph]) (simp add: quiet_def)
lemma emits_quiet_seq:
  assumes "emits m quiet" and "\<And>v. emits (f v) quiet"
  shows "emits (seq m f) quiet"
  by (rule emits_weaken[OF emits_seq[OF assms]]) (auto simp: quiet_def)

lemma emits_once_update_all: "emits (update_all mfn rfn) (once (Update_all mfn rfn))"
  unfolding update_all_def by (rule emits_weaken[OF emits_on_graph]) (simp add: once_def)

lemma emits_once_seq:
  assumes "emits m (once c)" and "\<And>v. emits (f v) quiet"
  shows "emits (seq m f) (once c)"
  by (rule emits_weaken[OF emits_seq[OF assms]]) (auto simp: quiet_def once_def)

lemma emits_quiet_then:
  assumes "emits m quiet" and "\<And>v. emits (f v) (once c)"
  shows "emits (seq m f) (\<lambda>cs. quiet cs \<or> once c cs)"
  by (rule emits_weaken[OF emits_seq[OF assms]]) (auto simp: quiet_def once_def)

lemma emits_scope_most:
  "emits body (\<lambda>cs. quiet cs \<or> once c cs) \<Longrightarrow> emits (local_scope L body) (\<lambda>cs. quiet cs \<or> once c cs)"
  by (rule emits_weaken[OF emits_local_scope]) (auto simp: once_def quiet_def)

text \<open>From the \<open>update_all\<close> call on, both methods make that call and no other.\<close>

lemma after1:
  "emits (seq (update_all (fn_copy_u ''h'' ''m'') (fn_mean ''m'' ''h_neigh'')) (\<lambda>_.
        seq (get_dstdata ''h_neigh'') (\<lambda>h_neigh.
        seq (lift (load_name [(''h'', h), (''h_neigh'', h_neigh)] ''h_dst'')) (\<lambda>h_dst.
        seq (lift (torch_cat h_dst h_neigh)) (\<lambda>h_total.
        seq (lift (Linear_forward (linear self) h_total)) (\<lambda>y.
        ret (F_relu y)))))))
     (once (Update_all (fn_copy_u ''h'' ''m'') (fn_mean ''m'' ''h_neigh'')))"
  by (intro emits_once_seq emits_once_update_all emits_quiet_seq emits_quiet_get_dstdata
      emits_quiet_lift emits_quiet_ret)

lemma after2:
  "emits (seq (update_all mfn (fn_mean ''m'' ''h_neigh'')) (\<lambda>_.
     seq (get_dstdata ''h_neigh'') (\<lambda>h_neigh.
     seq (lift (torch_cat h_dst h_neigh)) (\<lambda>h_total.
     seq (lift (Linear_forward (linear self) h_total)) (\<lambda>y.
     ret (F_relu y))))))
     (once (Update_all mfn (fn_mean ''m'' ''h_neigh'')))"
  by (intro emits_once_seq emits_once_update_all emits_quiet_seq emits_quiet_get_dstdata
      emits_quiet_lift emits_quiet_ret)

lemma forward1_most:
  "emits (SAGEConv1_forward L self h)
     (\<lambda>cs. quiet cs \<or> once (Update_all (fn_copy_u ''h'' ''m'') (fn_mean ''m'' ''h_neigh'')) cs)"
  unfolding SAGEConv1_forward_def
  by (intro emits_scope_most emits_quiet_then emits_quiet_set_srcdata after1)

lemma body2_most:
  "emits (SAGEConv2_body mfn self h w h_dst)
     (\<lambda>cs. quiet cs \<or> once (Update_all mfn (fn_mean ''m'' ''h_neigh'')) cs)"
  unfolding SAGEConv2_body_def
  apply (rule emits_weaken[OF emits_seq[OF emits_quiet_set_srcdata emits_quiet_then[OF emits_quiet_set_edata after2]]])
  apply (auto simp: quiet_def once_def)
  done

lemma seq_set_srcdata:
  "nrows t = num_src (gr s) \<Longrightarrow>
   seq (set_srcdata k t) f s =
     f () \<lparr>gr = (gr s)\<lparr>srcframe := AList.update k t (srcframe (gr s))\<rparr>,
            trace = trace s @ [Set_srcdata k]\<rparr>"
  by (simp add: seq_def set_srcdata_def on_graph_def g_set_srcdata_def)

lemma seq_set_edata:
  "nrows t = length (edges (gr s)) \<Longrightarrow>
   seq (set_edata k t) f s =
     f () \<lparr>gr = (gr s)\<lparr>edgeframe := AList.update k t (edgeframe (gr s))\<rparr>,
            trace = trace s @ [Set_edata k]\<rparr>"
  by (simp add: seq_def set_edata_def on_graph_def g_set_edata_def)

lemma trace_local_scope:
  "trace (snd (local_scope L body s)) = trace (snd (body (s\<lparr>trace := trace s @ [Local_scope]\<rparr>)))"
  by (simp add: local_scope_def Let_def split: prod.splits sum.splits)

lemma emits_at: "emits m P \<Longrightarrow> \<exists>cs. trace (snd (m s)) = trace s @ cs \<and> P cs"
  by (simp add: emits_def)

lemma forward1_once:
  assumes "nrows h = num_src (gr s)"
  shows "once (Update_all (fn_copy_u ''h'' ''m'') (fn_mean ''m'' ''h_neigh''))
           (calls_of (SAGEConv1_forward L self h) s)"
proof -
  let ?s1 = "\<lparr>gr = (gr s)\<lparr>srcframe := AList.update ''h'' h (srcframe (gr s))\<rparr>,
              trace = trace s @ [Local_scope, Set_srcdata ''h'']\<rparr>"
  from emits_at[OF after1, of h self ?s1] obtain cs where
    cs: "trace (snd ((seq (update_all (fn_copy_u ''h'' ''m'') (fn_mean ''m'' ''h_neigh'')) (\<lambda>_.
        seq (get_dstdata ''h_neigh'') (\<lambda>h_neigh.
        seq (lift (load_name [(''h'', h), (''h_neigh'', h_neigh)] ''h_dst'')) (\<lambda>h_dst.
        seq (lift (torch_cat h_dst h_neigh)) (\<lambda>h_total.
        seq (lift (Linear_forward (linear self) h_total)) (\<lambda>y.
        ret (F_relu y))))))) ?s1)) = trace ?s1 @ cs"
      "once (Update_all (fn_copy_u ''h'' ''m'') (fn_mean ''m'' ''h_neigh'')) cs"
    by blast
  have "trace (snd (SAGEConv1_forward L self h s)) = trace s @ [Local_scope, Set_srcdata ''h''] @ cs"
    unfolding SAGEConv1_forward_def trace_local_scope
    using cs(1) assms by (simp add: seq_set_srcdata)
  then have "calls_of (SAGEConv1_forward L self h) s = [Local_scope, Set_srcdata ''h''] @ cs"
    by (simp add: calls_of_def)
  with cs(2) show ?thesis by (simp add: once_def)
qed

lemma forward2_once:
  assumes "nrows h = num_src (gr s)" and "nrows w = length (edges (gr s))"
  shows "once (Update_all mfn (fn_mean ''m'' ''h_neigh''))
           (calls_of (SAGEConv2_forward_with mfn L self h w) s)"
proof -
  let ?s2 = "\<lparr>gr = (gr s)\<lparr>srcframe := AList.update ''h'' h (srcframe (gr s)),
                         edgeframe := AList.update ''w'' w (edgeframe (gr s))\<rparr>,
              trace = trace s @ [Number_of_dst_nodes, Local_scope, Set_srcdata ''h'', Set_edata ''w'']\<rparr>"
  let ?hd = "slice_to h (num_dst (gr s))"
  from emits_at[OF after2, of mfn ?hd self ?s2] obtain cs where
    cs: "trace (snd ((seq (update_all mfn (fn_mean ''m'' ''h_neigh'')) (\<lambda>_.
     seq (get_dstdata ''h_neigh'') (\<lambda>h_neigh.
     seq (lift (torch_cat ?hd h_neigh)) (\<lambda>h_total.
     seq (lift (Linear_forward (linear self) h_total)) (\<lambda>y.
     ret (F_relu y)))))) ?s2)) = trace ?s2 @ cs"
      "once (Update_all mfn (fn_mean ''m'' ''h_neigh'')) cs"
    by blast
  have "trace (snd (SAGEConv2_forward_with mfn L self h w s)) =
        trace s @ [Number_of_dst_nodes, Local_scope, Set_srcdata ''h'', Set_edata ''w''] @ cs"
    unfolding forward2_with_unfold trace_local_scope SAGEConv2_body_def
    using cs(1) assms by (simp add: seq_set_srcdata seq_set_edata)
  then have "calls_of (SAGEConv2_forward_with mfn L self h w) s =
        [Number_of_dst_nodes, Local_scope, Set_srcdata ''h'', Set_edata ''w''] @ cs"
    by (simp add: calls_of_def)
  with cs(2) show ?thesis by (simp add: once_def)
qed

lemma forward2_most:
  "emits (SAGEConv2_forward_with mfn L self h w)
     (\<lambda>cs. quiet cs \<or> once (Update_all mfn (fn_mean ''m'' ''h_neigh'')) cs)"
  unfolding SAGEConv2_forward_with_def
  apply (rule emits_weaken[OF emits_seq[OF emits_quiet_number emits_scope_most[OF body2_most]]])
  apply (auto simp: quiet_def once_def)
  done

text \<open>
  C2. Each of the two \<open>forward\<close> methods calls \<open>update_all\<close> at most once in a
  run, and exactly once as soon as the feature assignments before the call succeed
  (\<open>h\<close> has one row per source node, \<open>w\<close> one row per edge). The first passes
  \<open>fn.copy_u('h', 'm')\<close> with \<open>fn.mean('m', 'h_neigh')\<close>, the second
  \<open>fn.u_mul_e('h', 'w', 'm')\<close> with \<open>fn.mean('m', 'h_neigh')\<close>: the same entry point,
  different message functions.
\<close>

theorem forward_calls_update_all_once:
  "length (filter is_update_all (calls_of (SAGEConv1_forward L self h) s)) \<le> 1 \<and>
   length (filter is_update_all (calls_of (SAGEConv2_forward L self h w) s)) \<le> 1 \<and>
   (nrows h = num_src (gr s) \<longrightarrow>
      filter is_update_all (calls_of (SAGEConv1_forward L self h) s) =
        [Update_all (fn_copy_u ''h'' ''m'') (fn_mean ''m'' ''h_neigh'')]) \<and>
   (nrows h = num_src (gr s) \<and> nrows w = length (edges (gr s)) \<longrightarrow>
      filter is_update_all (calls_of (SAGEConv2_forward L self h w) s) =
        [Update_all (fn_u_mul_e ''h'' ''w'' ''m'') (fn_mean ''m'' ''h_neigh'')]) \<and>
   fn_copy_u ''h'' ''m'' \<noteq> fn_u_mul_e ''h'' ''w'' ''m''"
proof (intro conjI impI)
  show "length (filter is_update_all (calls_of (SAGEConv1_forward L self h) s)) \<le> 1"
    using emits_calls[OF forward1_most, of L self h s] by (auto simp: quiet_def once_def)
  show "length (filter is_update_all (calls_of (SAGEConv2_forward L self h w) s)) \<le> 1"
    using emits_calls[OF forward2_most, of "fn_u_mul_e ''h'' ''w'' ''m''" L self h w s]
    by (auto simp: quiet_def once_def SAGEConv2_forward_def)
  show "filter is_update_all (calls_of (SAGEConv1_forward L self h) s) =
        [Update_all (fn_copy_u ''h'' ''m'') (fn_mean ''m'' ''h_neigh'')]"
    if "nrows h = num_src (gr s)"
    using forward1_once[OF that] by (simp add: once_def)
  show "filter is_update_all (calls_of (SAGEConv2_forward L self h w) s) =
        [Update_all (fn_u_mul_e ''h'' ''w'' ''m'') (fn_mean ''m'' ''h_neigh'')]"
    if "nrows h = num_src (gr s) \<and> nrows w = length (edges (gr s))"
    using forward2_once[of h s w] that by (simp add: once_def SAGEConv2_forward_def)
  show "fn_copy_u ''h'' ''m'' \<noteq> fn_u_mul_e ''h'' ''w'' ''m''" by simp
qed

section \<open>What \<open>update_all\<close> writes\<close>

text \<open>
  When \<open>update_all\<close> with the mean reducer returns, the message function has
  produced floating-point messages, one per edge, and the destination feature holds
  their means, one row per destination node.
\<close>

lemma update_all_writes:
  assumes "g_update_all mfn (fn_mean msg out) g = Inr ((), g')"
  shows "\<exists>msgs mt. apply_message mfn (edge_batch_of g) = Inr msgs \<and> field msgs msg = Inr mt \<and>
           nrows mt = length (edges g) \<and> floating (dtype mt) \<and>
           g' = put_dstdata out (mean_of g mt) g"
proof -
  from assms obtain msgs where a: "apply_message mfn (edge_batch_of g) = Inr msgs"
    by (auto simp: g_update_all_def bindE_def split: sum.splits)
  with assms obtain mt where b: "field msgs msg = Inr mt"
    by (auto simp: g_update_all_def bindE_def split: sum.splits)
  with assms a have n: "nrows mt = length (edges g)" "floating (dtype mt)"
    by (auto simp: g_update_all_def bindE_def split: if_splits)
  with assms a b have "g' = put_dstdata out (mean_of g mt) g"
    by (auto simp: g_update_all_def bindE_def mean_of_def)
  with a b n show ?thesis by blast
qed

lemma update_all_then_dstdata:
  assumes "g_update_all mfn (fn_mean msg out) g = Inr ((), g')"
  shows "\<exists>t. field (dstdata g') out = Inr t \<and> nrows t = num_dst g"
proof -
  from update_all_writes[OF assms] obtain mt where "g' = put_dstdata out (mean_of g mt) g"
    by blast
  then have "field (dstdata g') out = Inr (mean_of g mt)" by (simp add: field_dstdata_put)
  moreover have "nrows (mean_of g mt) = num_dst g" by (simp add: mean_of_def nrows_def)
  ultimately show ?thesis by blast
qed

section \<open>The first \<open>forward\<close> never returns\<close>

text \<open>
  Every path through the first \<open>forward\<close> ends at a raise: a library call
  raises, or the read of \<open>h_dst\<close> is reached, and that raises \<open>NameError\<close>.
\<close>

lemma raises_seq_right: "(\<And>v. raises (f v)) \<Longrightarrow> raises (seq m f)"
  unfolding raises_def seq_def
  by (auto split: prod.splits sum.splits)

lemma raises_seq_left: "raises m \<Longrightarrow> raises (seq m f)"
  unfolding raises_def seq_def
  by (auto split: prod.splits sum.splits) (metis fst_conv sum.distinct(1))

lemma raises_lift: "raises (lift (Inl e))"
  by (simp add: raises_def lift_def)

lemma raises_local_scope: "raises body \<Longrightarrow> raises (local_scope L body)"
  unfolding raises_def local_scope_def Let_def
  by (auto split: prod.splits sum.splits) (metis fst_conv sum.distinct(1))

lemma load_h_dst:
  "load_name [(''h'', h), (''h_neigh'', hn)] ''h_dst'' = Inl (NameError ''h_dst'')"
  by (simp add: load_name_def)

lemma forward1_raises: "raises (SAGEConv1_forward L self h)"
  unfolding SAGEConv1_forward_def
  apply (rule raises_local_scope)
  apply (rule raises_seq_right)
  apply (rule raises_seq_right)
  apply (rule raises_seq_right)
  apply (rule raises_seq_left)
  apply (simp add: load_h_dst raises_lift)
  done

lemma forward1_name_error:
  assumes a: "g_set_srcdata ''h'' h (gr s) = Inr ((), g1)"
    and u: "g_update_all (fn_copy_u ''h'' ''m'') (fn_mean ''m'' ''h_neigh'') g1 = Inr ((), g2)"
  shows "fst (SAGEConv1_forward L self h s) = Inl (NameError ''h_dst'')"
proof -
  from update_all_then_dstdata[OF u] obtain hn where hn: "field (dstdata g2) ''h_neigh'' = Inr hn"
    by blast
  show ?thesis
    by (simp add: SAGEConv1_forward_def local_scope_def Let_def seq_def set_srcdata_def
        on_graph_def a update_all_def u get_dstdata_def g_get_dstdata_def hn bindE_def
        lift_def load_h_dst)
qed

lemma forward1_assignment_raises:
  assumes "g_set_srcdata ''h'' h (gr s) = Inl e"
  shows "fst (SAGEConv1_forward L self h s) = Inl e"
  using assms
  by (simp add: SAGEConv1_forward_def local_scope_def Let_def seq_def set_srcdata_def
      on_graph_def)

lemma forward1_update_all_raises:
  assumes "g_set_srcdata ''h'' h (gr s) = Inr ((), g1)"
    and "g_update_all (fn_copy_u ''h'' ''m'') (fn_mean ''m'' ''h_neigh'') g1 = Inl e"
  shows "fst (SAGEConv1_forward L self h s) = Inl e"
  using assms
  by (simp add: SAGEConv1_forward_def local_scope_def Let_def seq_def set_srcdata_def
      on_graph_def update_all_def)

lemma forward1_name_error_on:
  assumes e: "list_all (\<lambda>e. fst e < num_src (gr s)) (edges (gr s))"
    and n: "nrows h = num_src (gr s)" and f: "floating (dtype h)"
  shows "fst (SAGEConv1_forward L self h s) = Inl (NameError ''h_dst'')"
proof -
  let ?g1 = "(gr s)\<lparr>srcframe := AList.update ''h'' h (srcframe (gr s))\<rparr>"
  let ?x = "source_rows ?g1 h"
  have a: "g_set_srcdata ''h'' h (gr s) = Inr ((), ?g1)"
    using n by (simp add: g_set_srcdata_def)
  have "list_all (\<lambda>e. fst e < nrows h) (edges ?g1)" using e n by simp
  from gather_sources[OF this]
  have "apply_message (fn_copy_u ''h'' ''m'') (edge_batch_of ?g1) = Inr [(''m'', ?x)]"
    by (simp add: edge_batch_of_def bindE_def field_update_same)
  moreover have "nrows ?x = length (edges ?g1)" "floating (dtype ?x)"
    using f by (simp_all add: source_rows_def nrows_def)
  ultimately have "g_update_all (fn_copy_u ''h'' ''m'') (fn_mean ''m'' ''h_neigh'') ?g1 =
      Inr ((), put_dstdata ''h_neigh'' (mean_of ?g1 ?x) ?g1)"
    by (simp add: g_update_all_def bindE_def field_def mean_of_def)
  from forward1_name_error[OF a this] show ?thesis .
qed

lemma update_all_copy_u_int:
  assumes f: "\<not> floating (dtype h)" and h: "field (srcframe g) ''h'' = Inr h"
  shows "g_update_all (fn_copy_u ''h'' ''m'') (fn_mean ''m'' ''h_neigh'') g = Inl LibError"
proof (cases "gather h (map fst (edges g))")
  case (Inl e)
  then have "e = LibError" by (simp add: gather_def split: if_splits)
  with Inl h show ?thesis by (simp add: g_update_all_def edge_batch_of_def bindE_def)
next
  case (Inr x)
  then have "dtype x = dtype h" by (auto simp: gather_def split: if_splits)
  with f have "apply_reduce (fn_mean ''m'' ''h_neigh'') g [(''m'', x)] = Inl LibError"
    by (simp add: bindE_def field_def)
  with Inr h show ?thesis by (simp add: g_update_all_def edge_batch_of_def bindE_def)
qed

lemma forward1_lib_error:
  assumes "nrows h \<noteq> num_src (gr s) \<or> \<not> floating (dtype h)"
  shows "fst (SAGEConv1_forward L self h s) = Inl LibError"
proof (cases "nrows h = num_src (gr s)")
  case False
  then have "g_set_srcdata ''h'' h (gr s) = Inl LibError" by (simp add: g_set_srcdata_def)
  from forward1_assignment_raises[OF this] show ?thesis .
next
  case True
  let ?g1 = "(gr s)\<lparr>srcframe := AList.update ''h'' h (srcframe (gr s))\<rparr>"
  have a: "g_set_srcdata ''h'' h (gr s) = Inr ((), ?g1)"
    using True by (simp add: g_set_srcdata_def)
  from True assms have f: "\<not> floating (dtype h)" by simp
  have "field (srcframe ?g1) ''h'' = Inr h" by (simp add: field_update_same)
  from forward1_update_all_raises[OF a update_all_copy_u_int[OF f this]] show ?thesis .
qed

text \<open>
  C3, as amended. For every graph \<open>g\<close> and every tensor \<open>h\<close> of one or two
  dimensions with element type float32, float64 or int64, the first \<open>forward\<close>
  never returns a value: it ends with an exception. If the assignment
  \<open>g.srcdata['h'] = h\<close> or the call \<open>g.update_all(...)\<close> raises, that exception
  reaches the caller; if neither raises, the exception is \<open>NameError\<close>, because
  \<open>h_dst\<close> is read at \<open>torch.cat([h_dst, h_neigh], dim=1)\<close> and bound nowhere. On a
  graph whose edges start at its source nodes that is the case when \<open>h\<close> has one
  row per source node and a floating-point element type (float32 or float64). When
  \<open>h\<close> has another number of rows, or the element type int64, the library raises
  before \<open>h_dst\<close> is read. No relation between the numbers of source and of
  destination nodes is needed.
\<close>

theorem forward1_never_returns:
  "(\<exists>e. fst (SAGEConv1_forward L self h s) = Inl e) \<and>
   (\<forall>g1 g2. g_set_srcdata ''h'' h (gr s) = Inr ((), g1) \<longrightarrow>
      g_update_all (fn_copy_u ''h'' ''m'') (fn_mean ''m'' ''h_neigh'') g1 = Inr ((), g2) \<longrightarrow>
      fst (SAGEConv1_forward L self h s) = Inl (NameError ''h_dst'')) \<and>
   (\<forall>e. g_set_srcdata ''h'' h (gr s) = Inl e \<longrightarrow> fst (SAGEConv1_forward L self h s) = Inl e) \<and>
   (\<forall>g1 e. g_set_srcdata ''h'' h (gr s) = Inr ((), g1) \<longrightarrow>
      g_update_all (fn_copy_u ''h'' ''m'') (fn_mean ''m'' ''h_neigh'') g1 = Inl e \<longrightarrow>
      fst (SAGEConv1_forward L self h s) = Inl e) \<and>
   (list_all (\<lambda>e. fst e < num_src (gr s)) (edges (gr s)) \<and> nrows h = num_src (gr s) \<and>
    floating (dtype h) \<longrightarrow>
      fst (SAGEConv1_forward L self h s) = Inl (NameError ''h_dst'')) \<and>
   (nrows h \<noteq> num_src (gr s) \<or> \<not> floating (dtype h) \<longrightarrow>
      fst (SAGEConv1_forward L self h s) = Inl LibError)"
proof -
  have "\<exists>e. fst (SAGEConv1_forward L self h s) = Inl e"
    using forward1_raises[of L self h] by (simp add: raises_def)
  then show ?thesis
    using forward1_name_error[of h s _ _ L self] forward1_assignment_raises[of h s _ L self]
      forward1_update_all_raises[of h s _ _ L self] forward1_name_error_on[of s h L self]
      forward1_lib_error[of h s L self]
    by blast
qed

section \<open>The second \<open>forward\<close>\<close>






















section \<open>One call, one propagation step\<close>

lemma mailbox_member:
  assumes "nrows mt = length (edges g)" and "i < length (edges g)"
  shows "rows mt ! i \<in> set (mailbox g mt (snd (edges g ! i)))"
  using assms by (auto simp: mailbox_index)

lemma batch_covers_edges:
  "src (edge_batch_of g) k = Inr x \<Longrightarrow> nrows x = length (edges g)"
  by (auto simp: edge_batch_of_def bindE_def gather_def nrows_def split: sum.splits if_splits)

theorem update_all_full_step:
  assumes "g_update_all mfn (fn_mean msg out) g = Inr ((), g')"
  shows "\<exists>msgs mt t. apply_message mfn (edge_batch_of g) = Inr msgs \<and>
           (\<forall>k x. src (edge_batch_of g) k = Inr x \<longrightarrow> nrows x = length (edges g)) \<and>
           field msgs msg = Inr mt \<and> nrows mt = length (edges g) \<and>
           (\<forall>i<length (edges g). rows mt ! i \<in> set (mailbox g mt (snd (edges g ! i)))) \<and>
           field (dstdata g') out = Inr t \<and> nrows t = num_dst g \<and>
           (\<forall>v<num_dst g. rows t ! v = mean_rows (ncols mt) (mailbox g mt v))"
proof -
  from update_all_writes[OF assms] obtain msgs mt where
    a: "apply_message mfn (edge_batch_of g) = Inr msgs" and b: "field msgs msg = Inr mt"
    and n: "nrows mt = length (edges g)" and g': "g' = put_dstdata out (mean_of g mt) g"
    by blast
  have "field (dstdata g') out = Inr (mean_of g mt)" by (simp add: g' field_dstdata_put)
  moreover have "nrows (mean_of g mt) = num_dst g" by (simp add: mean_of_def nrows_def)
  moreover have "\<forall>v<num_dst g. rows (mean_of g mt) ! v = mean_rows (ncols mt) (mailbox g mt v)"
    by (simp add: mean_of_def)
  ultimately show ?thesis using a b n mailbox_member[OF n] batch_covers_edges by blast
qed

section \<open>The examples, run\<close>

lemmas run_defs = SAGEConv2_forward_def SAGEConv2_forward_with_def SAGEConv2_body_def
  SAGEConv1_forward_def number_of_dst_nodes_def local_scope_def Let_def seq_def set_srcdata_def
  set_edata_def on_graph_def g_set_srcdata_def g_set_edata_def update_all_def get_dstdata_def
  g_get_dstdata_def g_update_all_def edge_batch_of_def gather_def field_def bindE_def lift_def
  ret_def torch_mul_def dgl_mul_def as_matrix_def view_rows_def view_cols_def stretch_def
  promote_def floating_def broadcast_def row_mul_def mailbox_def mean_rows_def sum_rows_def
  put_dstdata_def dstdata_def torch_cat_def Linear_forward_def dot_def affine_def F_relu_def
  slice_to_def restore_def nrows_def load_name_def u_mul_e_udf_def zero_scalar_def

lemmas ex_defs = ex_world_def ex_graph_def ex_h_def ex_w_def ex_conv_def SAGEConv_init_def
  ex_h_short_def ex_h_long_def ex_w_short_def ex_h'_def ex_h_nan_def ex_h_int_def
  ex_w_double_def ex_block_def ex_h_two_def ex_w_two_def ex_h3_def ex_w_vec_def ex_w_vec'_def
  ex_graph3_def ex_conv3_def lib_restoring_def lib_leaving_def

lemma upt_3: "[0..<3] = [0, 1, 2]"
  by (simp add: upt_rec)

lemma replicate_3: "replicate 3 x = [x, x, x]"
  by (simp add: numeral_3_eq_3)

lemma ex_forward2:
  "SAGEConv2_forward L ex_conv ex_h ex_w ex_world =
     (Inr (Tensor Float32 False 1 [[Num 0], [Num 0], [Num 3]]),
      \<lparr>gr = ex_graph,
       trace = [Number_of_dst_nodes, Local_scope, Set_srcdata ''h'', Set_edata ''w'',
                Update_all (fn_u_mul_e ''h'' ''w'' ''m'') (fn_mean ''m'' ''h_neigh''),
                Get_dstdata ''h_neigh'']\<rparr>)"
  by (simp add: run_defs ex_defs upt_3)


text \<open>
  C4 on the example: the second \<open>forward\<close> returns and leaves the example graph as it
  was; with a scope that puts the frames back on a raise, so do the second \<open>forward\<close>
  when the weights have a row too few and the first \<open>forward\<close>.
\<close>

theorem forward_scoped_witness:
  "fst (SAGEConv2_forward lib_leaving ex_conv ex_h ex_w ex_world) =
     Inr (Tensor Float32 False 1 [[Num 0], [Num 0], [Num 3]]) \<and>
   gr (snd (SAGEConv2_forward lib_leaving ex_conv ex_h ex_w ex_world)) = ex_graph \<and>
   restores_on_raise lib_restoring \<and>
   gr (snd (SAGEConv2_forward lib_restoring ex_conv ex_h ex_w_short ex_world)) = ex_graph \<and>
   gr (snd (SAGEConv1_forward lib_restoring ex_conv ex_h' ex_world)) = ex_graph"
proof -
  have r: "restores_on_raise lib_restoring" by (simp add: lib_restoring_def)
  have g: "gr ex_world = ex_graph" by (simp add: ex_world_def)
  from forward_scoped[of lib_leaving ex_conv ex_h ex_w ex_world]
  have "gr (snd (SAGEConv2_forward lib_leaving ex_conv ex_h ex_w ex_world)) = ex_graph"
    using ex_forward2[of lib_leaving] g by simp
  moreover from forward_scoped[of lib_restoring ex_conv ex_h ex_w_short ex_world ex_conv ex_h'] r g
  have "gr (snd (SAGEConv2_forward lib_restoring ex_conv ex_h ex_w_short ex_world)) = ex_graph"
    "gr (snd (SAGEConv1_forward lib_restoring ex_conv ex_h' ex_world)) = ex_graph"
    by simp_all
  ultimately show ?thesis using r ex_forward2[of lib_leaving] by simp
qed

text \<open>
  C2 on the example: the one \<open>update_all\<close> call of each method, with its arguments.
\<close>

theorem forward_calls_update_all_once_witness:
  "nrows ex_h = num_src (gr ex_world) \<and> nrows ex_w = length (edges (gr ex_world)) \<and>
   filter is_update_all (calls_of (SAGEConv1_forward lib_leaving ex_conv ex_h) ex_world) =
     [Update_all (fn_copy_u ''h'' ''m'') (fn_mean ''m'' ''h_neigh'')] \<and>
   filter is_update_all (calls_of (SAGEConv2_forward lib_leaving ex_conv ex_h ex_w) ex_world) =
     [Update_all (fn_u_mul_e ''h'' ''w'' ''m'') (fn_mean ''m'' ''h_neigh'')]"
proof -
  have a: "nrows ex_h = num_src (gr ex_world)" "nrows ex_w = length (edges (gr ex_world))"
    by (simp_all add: nrows_def ex_defs)
  with forward_calls_update_all_once[of lib_leaving ex_conv ex_h ex_world ex_w]
  show ?thesis by simp
qed

text \<open>
  C3 on the examples: \<open>NameError\<close> when \<open>h\<close> is a float32 tensor with a row per
  node, on the example graph and on a block with two source and three destination
  nodes; the library's exception when \<open>h\<close> has a row too few, raised by the
  assignment, and when \<open>h\<close> is an integer tensor, raised by \<open>update_all\<close>.
\<close>

theorem forward1_never_returns_witness:
  "(\<exists>g1 g2. g_set_srcdata ''h'' ex_h (gr ex_world) = Inr ((), g1) \<and>
      g_update_all (fn_copy_u ''h'' ''m'') (fn_mean ''m'' ''h_neigh'') g1 = Inr ((), g2)) \<and>
   list_all (\<lambda>e. fst e < num_src (gr ex_world)) (edges (gr ex_world)) \<and>
   nrows ex_h = num_src (gr ex_world) \<and> floating (dtype ex_h) \<and>
   fst (SAGEConv1_forward lib_leaving ex_conv ex_h ex_world) = Inl (NameError ''h_dst'') \<and>
   fst (SAGEConv1_forward lib_leaving ex_conv ex_h_two \<lparr>gr = ex_block, trace = []\<rparr>) =
     Inl (NameError ''h_dst'') \<and>
   nrows ex_h_short \<noteq> num_src (gr ex_world) \<and>
   g_set_srcdata ''h'' ex_h_short (gr ex_world) = Inl LibError \<and>
   fst (SAGEConv1_forward lib_leaving ex_conv ex_h_short ex_world) = Inl LibError \<and>
   (\<exists>g1. g_set_srcdata ''h'' ex_h_int (gr ex_world) = Inr ((), g1) \<and>
      g_update_all (fn_copy_u ''h'' ''m'') (fn_mean ''m'' ''h_neigh'') g1 = Inl LibError) \<and>
   fst (SAGEConv1_forward lib_leaving ex_conv ex_h_int ex_world) = Inl LibError"
proof -
  have s: "g_set_srcdata ''h'' ex_h (gr ex_world) = Inr ((), ex_graph)"
    by (simp add: g_set_srcdata_def nrows_def ex_defs)
  have u: "\<exists>g2. g_update_all (fn_copy_u ''h'' ''m'') (fn_mean ''m'' ''h_neigh'') ex_graph =
      Inr ((), g2)"
    by (simp add: g_update_all_def edge_batch_of_def bindE_def field_def gather_def nrows_def
        floating_def ex_defs)
  have a: "list_all (\<lambda>e. fst e < num_src (gr ex_world)) (edges (gr ex_world))"
    "nrows ex_h = num_src (gr ex_world)" "floating (dtype ex_h)"
    "nrows ex_h_short \<noteq> num_src (gr ex_world)"
    by (simp_all add: nrows_def floating_def ex_defs)
  have b: "list_all (\<lambda>e. fst e < num_src ex_block) (edges ex_block)"
    "nrows ex_h_two = num_src ex_block" "floating (dtype ex_h_two)"
    by (simp_all add: nrows_def floating_def ex_defs)
  have short: "g_set_srcdata ''h'' ex_h_short (gr ex_world) = Inl LibError"
    by (simp add: g_set_srcdata_def nrows_def ex_defs)
  let ?gi = "ex_graph\<lparr>srcframe := [(''h'', ex_h_int)]\<rparr>"
  have si: "g_set_srcdata ''h'' ex_h_int (gr ex_world) = Inr ((), ?gi)"
    by (simp add: g_set_srcdata_def nrows_def ex_defs)
  have ui: "g_update_all (fn_copy_u ''h'' ''m'') (fn_mean ''m'' ''h_neigh'') ?gi = Inl LibError"
    by (simp add: g_update_all_def edge_batch_of_def bindE_def field_def gather_def nrows_def
        floating_def ex_defs)
  from forward1_never_returns[of lib_leaving ex_conv ex_h ex_world] a
  have 1: "fst (SAGEConv1_forward lib_leaving ex_conv ex_h ex_world) = Inl (NameError ''h_dst'')"
    by simp
  from forward1_never_returns[of lib_leaving ex_conv ex_h_two "\<lparr>gr = ex_block, trace = []\<rparr>"] b
  have 2: "fst (SAGEConv1_forward lib_leaving ex_conv ex_h_two \<lparr>gr = ex_block, trace = []\<rparr>) =
      Inl (NameError ''h_dst'')"
    by simp
  from forward1_never_returns[of lib_leaving ex_conv ex_h_short ex_world] short
  have 3: "fst (SAGEConv1_forward lib_leaving ex_conv ex_h_short ex_world) = Inl LibError"
    by simp
  from forward1_never_returns[of lib_leaving ex_conv ex_h_int ex_world] si ui
  have 4: "fst (SAGEConv1_forward lib_leaving ex_conv ex_h_int ex_world) = Inl LibError"
    by simp
  from s u si ui 1 2 3 4 a short show ?thesis by blast
qed

text \<open>
  C3 as first stated fails: with a feature tensor of two rows for the three nodes the
  first \<open>forward\<close> raises the library's exception, not \<open>NameError\<close>; and so it
  does with an integer feature tensor that has a row for each of the three nodes.
\<close>

theorem forward1_name_error_counterexample:
  "fst (SAGEConv1_forward lib_leaving ex_conv ex_h_short ex_world) = Inl LibError \<and>
   fst (SAGEConv1_forward lib_leaving ex_conv ex_h_short ex_world) \<noteq> Inl (NameError ''h_dst'') \<and>
   nrows ex_h_int = num_src (gr ex_world) \<and>
   fst (SAGEConv1_forward lib_leaving ex_conv ex_h_int ex_world) = Inl LibError \<and>
   fst (SAGEConv1_forward lib_leaving ex_conv ex_h_int ex_world) \<noteq> Inl (NameError ''h_dst'')"
  by (simp add: run_defs ex_defs)






text \<open>
  C8 on the example.
\<close>

theorem update_all_full_step_witness:
  "\<exists>g' msgs mt t.
     g_update_all (fn_copy_u ''h'' ''m'') (fn_mean ''m'' ''h_neigh'') ex_graph = Inr ((), g') \<and>
     apply_message (fn_copy_u ''h'' ''m'') (edge_batch_of ex_graph) = Inr msgs \<and>
     field msgs ''m'' = Inr mt \<and> nrows mt = 3 \<and>
     rows mt ! 0 \<in> set (mailbox ex_graph mt 1) \<and>
     field (dstdata g') ''h_neigh'' = Inr t \<and> nrows t = 3 \<and>
     rows t ! 2 = mean_rows (ncols mt) (mailbox ex_graph mt 2)"
proof -
  have "\<exists>g'. g_update_all (fn_copy_u ''h'' ''m'') (fn_mean ''m'' ''h_neigh'') ex_graph =
      Inr ((), g')"
    by (simp add: g_update_all_def edge_batch_of_def bindE_def field_def gather_def nrows_def
        floating_def ex_defs)
  then obtain g' where
    run: "g_update_all (fn_copy_u ''h'' ''m'') (fn_mean ''m'' ''h_neigh'') ex_graph = Inr ((), g')"
    by blast
  from update_all_full_step[OF run] obtain msgs mt t where
    r: "apply_message (fn_copy_u ''h'' ''m'') (edge_batch_of ex_graph) = Inr msgs"
       "field msgs ''m'' = Inr mt" "nrows mt = length (edges ex_graph)"
       "\<forall>i<length (edges ex_graph). rows mt ! i \<in> set (mailbox ex_graph mt (snd (edges ex_graph ! i)))"
       "field (dstdata g') ''h_neigh'' = Inr t"
       "nrows t = num_dst ex_graph"
       "\<forall>v<num_dst ex_graph. rows t ! v = mean_rows (ncols mt) (mailbox ex_graph mt v)"
    by blast
  have "0 < length (edges ex_graph)" by (simp add: ex_graph_def)
  from r(4)[rule_format, OF this]
  have "rows mt ! 0 \<in> set (mailbox ex_graph mt (snd (edges ex_graph ! 0)))" .
  then have m0: "rows mt ! 0 \<in> set (mailbox ex_graph mt 1)" by (simp add: ex_graph_def)
  have "2 < num_dst ex_graph" by (simp add: ex_graph_def)
  from r(7)[rule_format, OF this]
  have "rows t ! 2 = mean_rows (ncols mt) (mailbox ex_graph mt 2)" .
  moreover have "length (edges ex_graph) = 3" "num_dst ex_graph = 3" by (simp_all add: ex_graph_def)
  ultimately show ?thesis using run r(1,2,3,5,6) m0 by auto
qed

section \<open>The user-defined message function\<close>

text \<open>
  The notebook says of \<open>u_mul_e_udf\<close> that it is the same as the built-in
  \<open>fn.u_mul_e('h', 'w', 'm')\<close>. The built-in multiplies, edge by edge, the feature
  of the source by the feature of the edge: message \<open>i\<close> is made of row \<open>i\<close> of
  each.
\<close>

lemma dgl_mul_rows:
  assumes "dgl_mul x y = Inr m" and "i < nrows x"
  shows "nrows m = nrows x \<and> rows m ! i = row_mul (rows x ! i) (rows y ! i)"
  using assms
  by (auto simp: dgl_mul_def nrows_def split: if_splits option.splits)

text \<open>
  The product \<open>*\<close> of the tensor framework, which \<open>u_mul_e_udf\<close> calls, is the
  same product as long as both features have two dimensions, the same element type
  and a row per edge.
\<close>

lemma stretch_row_mul:
  assumes "broadcast (length a) (length b) = Some c"
  shows "map2 times (stretch c a) (stretch c b) = row_mul a b"
proof -
  have r: "map2 times xs (replicate (length xs) v) = map (\<lambda>x. x * v) xs" for xs and v :: scalar
    by (induction xs) simp_all
  have l: "map2 times (replicate (length ys) v) ys = map (\<lambda>y. v * y) ys" for ys and v :: scalar
    by (induction ys) simp_all
  show ?thesis
    using assms r[of a "hd b"] l[of b "hd a"]
    by (auto simp: broadcast_def stretch_def row_mul_def split: if_splits)
qed

lemma udf_product_on_matrices:
  assumes v: "\<not> vec x" "\<not> vec y" and t: "is_tensor x" "is_tensor y"
    and dt: "dtype x = dtype y" and n: "nrows x = nrows y"
  shows "torch_mul x y = dgl_mul x y"
proof (cases "broadcast (ncols x) (ncols y)")
  case None
  with v dt n show ?thesis
    by (simp add: torch_mul_def dgl_mul_def view_rows_def view_cols_def broadcast_def)
next
  case (Some c)
  have "map2 (\<lambda>a b. map2 times (stretch c a) (stretch c b)) (rows x) (rows y) =
        map2 row_mul (rows x) (rows y)"
  proof -
    have "map2 times (stretch c a) (stretch c b) = row_mul a b"
      if "(a, b) \<in> set (zip (rows x) (rows y))" for a b
    proof -
      from that have "a \<in> set (rows x)" "b \<in> set (rows y)"
        by (auto dest: set_zip_leftD set_zip_rightD)
      with t have "length a = ncols x" "length b = ncols y"
        by (auto simp: is_tensor_def list_all_iff)
      with Some show ?thesis by (simp add: stretch_row_mul)
    qed
    then show ?thesis by auto
  qed
  moreover have "broadcast (nrows y) (nrows y) = Some (nrows y)" by (simp add: broadcast_def)
  moreover have "stretch (nrows y) (rows x) = rows x" "stretch (nrows y) (rows y) = rows y"
    using n by (simp_all add: stretch_def nrows_def)
  moreover have "promote (dtype y) (dtype y) = dtype y" by (cases "dtype y") (simp_all add: promote_def)
  ultimately show ?thesis
    using Some v dt n
    by (simp add: torch_mul_def dgl_mul_def view_rows_def view_cols_def as_matrix_def)
qed

text \<open>
  On a one-dimensional edge weight the two differ. The graph has the edges
  \<open>0 \<rightarrow> 1\<close>, \<open>2 \<rightarrow> 1\<close>, \<open>1 \<rightarrow> 0\<close>, the features of the three nodes are \<open>[1, 2, 3]\<close>,
  \<open>[4, 5, 6]\<close>, \<open>[7, 8, 9]\<close> and the weights of the three edges are \<open>2\<close>, \<open>3\<close>, \<open>4\<close>,
  given as a tensor of one dimension. The built-in multiplies the feature of the
  source of edge \<open>i\<close> by weight \<open>i\<close>. The framework's product aligns the one
  dimension of the weights with the last dimension of the features, their width,
  which here is also 3: it multiplies entry \<open>j\<close> of every message by weight \<open>j\<close>.
\<close>

lemma ex3_builtin:
  "apply_message (fn_u_mul_e ''h'' ''w'' ''m'') (edge_batch_of (ex_graph3 ex_w_vec)) =
     Inr [(''m'', Tensor Float32 False 3
       [[Num 2, Num 4, Num 6], [Num 21, Num 24, Num 27], [Num 16, Num 20, Num 24]])]"
  by (simp add: run_defs ex_defs)

lemma ex3_udf:
  "u_mul_e_udf (edge_batch_of (ex_graph3 ex_w_vec)) =
     Inr [(''m'', Tensor Float32 False 3
       [[Num 2, Num 6, Num 12], [Num 14, Num 24, Num 36], [Num 8, Num 15, Num 24]])]"
  by (simp add: run_defs ex_defs)

lemma ex3_forward_builtin:
  "fst (SAGEConv2_forward lib_leaving ex_conv3 ex_h3 ex_w_vec
         \<lparr>gr = ex_graph3 ex_w_vec, trace = []\<rparr>) =
     Inr (Tensor Float32 False 1 [[Num 66], [Num 57], [Num 24]])"
  by (simp add: run_defs ex_defs upt_3 replicate_3)

lemma ex3_forward_udf:
  "fst (SAGEConv2_forward_with (udf u_mul_e_udf) lib_leaving ex_conv3 ex_h3 ex_w_vec
         \<lparr>gr = ex_graph3 ex_w_vec, trace = []\<rparr>) =
     Inr (Tensor Float32 False 1 [[Num 53], [Num 62], [Num 24]])"
  by (simp add: run_defs ex_defs upt_3 replicate_3)

lemma ex3_udf':
  "u_mul_e_udf (edge_batch_of (ex_graph3 ex_w_vec')) =
     Inr [(''m'', Tensor Float32 False 3
       [[Num 5, Num 6, Num 12], [Num 35, Num 24, Num 36], [Num 20, Num 15, Num 24]])]"
  by (simp add: run_defs ex_defs)

lemma ex3_builtin':
  "apply_message (fn_u_mul_e ''h'' ''w'' ''m'') (edge_batch_of (ex_graph3 ex_w_vec')) =
     Inr [(''m'', Tensor Float32 False 3
       [[Num 5, Num 10, Num 15], [Num 21, Num 24, Num 27], [Num 16, Num 20, Num 24]])]"
  by (simp add: run_defs ex_defs)

text \<open>
  C5 fails in the code. With the one-dimensional weights \<open>[2, 3, 4]\<close> the built-in
  \<open>fn.u_mul_e('h', 'w', 'm')\<close> and \<open>u_mul_e_udf\<close> produce different messages, and the
  second \<open>forward\<close> returns \<open>[[66], [57], [24]]\<close> with the built-in and
  \<open>[[53], [62], [24]]\<close> with \<open>u_mul_e_udf\<close> in its place (linear layer: all weights 1,
  bias 0).
\<close>

theorem u_mul_e_udf_differs:
  "vec ex_w_vec \<and> nrows ex_w_vec = length (edges (ex_graph3 ex_w_vec)) \<and>
   nrows ex_h3 = num_src (ex_graph3 ex_w_vec) \<and>
   apply_message (fn_u_mul_e ''h'' ''w'' ''m'') (edge_batch_of (ex_graph3 ex_w_vec)) =
     Inr [(''m'', Tensor Float32 False 3
       [[Num 2, Num 4, Num 6], [Num 21, Num 24, Num 27], [Num 16, Num 20, Num 24]])] \<and>
   u_mul_e_udf (edge_batch_of (ex_graph3 ex_w_vec)) =
     Inr [(''m'', Tensor Float32 False 3
       [[Num 2, Num 6, Num 12], [Num 14, Num 24, Num 36], [Num 8, Num 15, Num 24]])] \<and>
   fst (SAGEConv2_forward lib_leaving ex_conv3 ex_h3 ex_w_vec
         \<lparr>gr = ex_graph3 ex_w_vec, trace = []\<rparr>) =
     Inr (Tensor Float32 False 1 [[Num 66], [Num 57], [Num 24]]) \<and>
   fst (SAGEConv2_forward_with (udf u_mul_e_udf) lib_leaving ex_conv3 ex_h3 ex_w_vec
         \<lparr>gr = ex_graph3 ex_w_vec, trace = []\<rparr>) =
     Inr (Tensor Float32 False 1 [[Num 53], [Num 62], [Num 24]])"
proof -
  have "vec ex_w_vec" "nrows ex_w_vec = length (edges (ex_graph3 ex_w_vec))"
    "nrows ex_h3 = num_src (ex_graph3 ex_w_vec)"
    by (simp_all add: nrows_def ex_defs)
  then show ?thesis
    using ex3_builtin ex3_udf ex3_forward_builtin ex3_forward_udf by simp
qed

text \<open>
  C7 fails in the code for \<open>u_mul_e_udf\<close>. Change the weight of edge 0 from 2 to 5
  and leave everything else as it is. Edge 2 keeps its weight 4 and its source
  feature \<open>[4, 5, 6]\<close>, and the built-in message function gives it the message
  \<open>[16, 20, 24]\<close> both times. The message that \<open>u_mul_e_udf\<close> gives edge 2 changes
  from \<open>[8, 15, 24]\<close> to \<open>[20, 15, 24]\<close>: it is made of the weights of all three
  edges.
\<close>

theorem udf_message_uses_other_edges:
  "rows ex_w_vec ! 2 = [Num 4] \<and> rows ex_w_vec' ! 2 = [Num 4] \<and>
   rows ex_w_vec ! 0 = [Num 2] \<and> rows ex_w_vec' ! 0 = [Num 5] \<and>
   rows ex_w_vec ! 1 = rows ex_w_vec' ! 1 \<and>
   edges (ex_graph3 ex_w_vec) ! 2 = (1, 0) \<and> rows ex_h3 ! 1 = [Num 4, Num 5, Num 6] \<and>
   u_mul_e_udf (edge_batch_of (ex_graph3 ex_w_vec)) =
     Inr [(''m'', Tensor Float32 False 3
       [[Num 2, Num 6, Num 12], [Num 14, Num 24, Num 36], [Num 8, Num 15, Num 24]])] \<and>
   u_mul_e_udf (edge_batch_of (ex_graph3 ex_w_vec')) =
     Inr [(''m'', Tensor Float32 False 3
       [[Num 5, Num 6, Num 12], [Num 35, Num 24, Num 36], [Num 20, Num 15, Num 24]])] \<and>
   apply_message (fn_u_mul_e ''h'' ''w'' ''m'') (edge_batch_of (ex_graph3 ex_w_vec)) =
     Inr [(''m'', Tensor Float32 False 3
       [[Num 2, Num 4, Num 6], [Num 21, Num 24, Num 27], [Num 16, Num 20, Num 24]])] \<and>
   apply_message (fn_u_mul_e ''h'' ''w'' ''m'') (edge_batch_of (ex_graph3 ex_w_vec')) =
     Inr [(''m'', Tensor Float32 False 3
       [[Num 5, Num 10, Num 15], [Num 21, Num 24, Num 27], [Num 16, Num 20, Num 24]])]"
proof -
  have "rows ex_w_vec ! 2 = [Num 4]" "rows ex_w_vec' ! 2 = [Num 4]"
    "rows ex_w_vec ! 0 = [Num 2]" "rows ex_w_vec' ! 0 = [Num 5]"
    "rows ex_w_vec ! 1 = rows ex_w_vec' ! 1"
    "edges (ex_graph3 ex_w_vec) ! 2 = (1, 0)" "rows ex_h3 ! 1 = [Num 4, Num 5, Num 6]"
    by (simp_all add: ex_defs)
  then show ?thesis
    using ex3_udf ex3_udf' ex3_builtin ex3_builtin' by simp
qed

section \<open>What a raise inside the scope leaves behind\<close>

text \<open>
  Neither method catches an exception: a raise of any step ends the run with that
  exception, and the scope hands it on unchanged (\<open>local_scope_outcome\<close>).
\<close>

lemma seq_propagates: "fst (m s) = Inl e \<Longrightarrow> fst (seq m f s) = Inl e"
  by (cases "m s") (auto simp: seq_def)

text \<open>
  What the graph holds afterwards depends on the library. In the example the second
  \<open>forward\<close> is given a new feature and weights with a row too few, so that
  \<open>g.edata['w'] = w\<close> raises after \<open>g.srcdata['h'] = h\<close> has taken place. A scope that
  puts the frames back on a raise leaves the graph as it was; one that does not
  leaves the new feature in the graph.
\<close>

lemma raise_in_scope_restoring:
  "fst (SAGEConv2_forward lib_restoring ex_conv ex_h' ex_w_short ex_world) = Inl LibError \<and>
   gr (snd (SAGEConv2_forward lib_restoring ex_conv ex_h' ex_w_short ex_world)) = ex_graph"
  by (simp add: run_defs ex_defs)

lemma raise_in_scope_leaving:
  "fst (SAGEConv2_forward lib_leaving ex_conv ex_h' ex_w_short ex_world) = Inl LibError \<and>
   srcframe (gr (snd (SAGEConv2_forward lib_leaving ex_conv ex_h' ex_w_short ex_world))) =
     [(''h'', ex_h')] \<and>
   srcframe ex_graph = [(''h'', ex_h)]"
  by (simp add: run_defs ex_defs)

end
